theory Spec2Isabelle
  imports Complex_Main
begin

section \<open>Values\<close>

text \<open>
  The values that cross the HTTP boundary are JSON values: request bodies, the payload of
  a stream event, the content of a JSON response. Python's \<open>None\<close> is \<open>JNull\<close>, a
  \<open>dict\<close> is an association list in insertion order. A Python \<open>float\<close> is only
  stored, compared with zero and passed on by this program, never computed with, so it is
  modelled by the real number it denotes. Strings are byte strings: a non-ASCII literal of
  the source is its UTF-8 encoding.
\<close>

datatype json =
    JNull
  | JBool bool
  | JInt int
  | JFloat real
  | JStr string
  | JArr "json list"
  | JObj "(string \<times> json) list"

text \<open>Python's truth value of an object, as tested by \<open>if x:\<close> and \<open>x and y\<close>.\<close>

fun truthy :: "json \<Rightarrow> bool" where
  "truthy JNull = False"
| "truthy (JBool b) = b"
| "truthy (JInt n) = (n \<noteq> 0)"
| "truthy (JFloat r) = (r \<noteq> 0)"
| "truthy (JStr s) = (s \<noteq> [])"
| "truthy (JArr xs) = (xs \<noteq> [])"
| "truthy (JObj kvs) = (kvs \<noteq> [])"

text \<open>Python's \<open>str\<close> of an integer, and \<open>sep.join(parts)\<close>.\<close>

fun str_nat :: "nat \<Rightarrow> string" where
  "str_nat n =
     (if n < 10 then [''0123456789'' ! n]
      else str_nat (n div 10) @ [''0123456789'' ! (n mod 10)])"

declare str_nat.simps [simp del]

definition str_int :: "int \<Rightarrow> string" where
  "str_int i = (if i < 0 then ''-'' @ str_nat (nat (- i)) else str_nat (nat i))"

fun join :: "string \<Rightarrow> string list \<Rightarrow> string" where
  "join sep [] = []"
| "join sep [x] = x"
| "join sep (x # y # ys) = x @ sep @ join sep (y # ys)"

text \<open>
  The truth value of an \<open>Optional[str]\<close> and of an \<open>Optional[bool]\<close>: \<open>None\<close>,
  the empty string and \<open>False\<close> are false.
\<close>

fun truthy_str :: "string option \<Rightarrow> bool" where
  "truthy_str None = False"
| "truthy_str (Some s) = (s \<noteq> [])"

text \<open>\<open>x or d\<close> for an \<open>Optional[str]\<close>.\<close>

fun str_or :: "string option \<Rightarrow> string \<Rightarrow> string" where
  "str_or None d = d"
| "str_or (Some s) d = (if s \<noteq> [] then s else d)"

fun truthy_bool :: "bool option \<Rightarrow> bool" where
  "truthy_bool None = False"
| "truthy_bool (Some b) = b"

section \<open>The data model (app/schemas/chat.py)\<close>

text \<open>
  Each pydantic class is a record with the fields in the order of the class. A field name
  that several classes share, or that is too short to be a constant, carries the class as
  a prefix: \<open>msg_name\<close> is \<open>ChatMessage.name\<close>, \<open>tool_type\<close> and \<open>tool_function\<close>
  are \<open>Tool.type\<close> and \<open>Tool.function\<close>, \<open>req_model\<close>, \<open>req_n\<close> and \<open>req_user\<close> are
  \<open>ChatCompletionRequest.model\<close>, \<open>n\<close> and \<open>user\<close>, and the fields of
  \<open>ChatCompletionResponse\<close> start with \<open>resp_\<close>. A \<open>Literal[...]\<close> field is the string
  it holds; \<open>Dict[str, Any]\<close> is an association list of JSON values.
\<close>

type_synonym json_dict = "(string \<times> json) list"

record ChatMessage =
  role :: string
  content :: "string option"
  msg_name :: "string option"
  function_call :: "json_dict option"
  tool_calls :: "json_dict list option"
  tool_call_id :: "string option"

record Tool =
  tool_type :: string
  tool_function :: json_dict

record AgentConfig =
  agent_type :: string
  specialization :: "string option"
  personality :: "string option"
  guidelines :: "string list option"
  tools_enabled :: "string list option"
  max_iterations :: "int option"
  reasoning_mode :: "string option"

record MemoryConfig =
  memory_type :: string
  retention_policy :: "string option"
  max_memory_size :: "int option"
  compression_enabled :: "bool option"
  retrieval_strategy :: "string option"

record MCPConfig =
  context_window_size :: int
  context_compression :: bool
  relevance_threshold :: real
  context_sources :: "string list"
  dynamic_context :: bool

text \<open>\<open>Union[str, List[str]]\<close> and \<open>Union[str, Dict[str, Any]]\<close>.\<close>

datatype str_or_list = OneStr string | StrList "string list"

datatype str_or_dict = AStr string | ADict json_dict

record ChatCompletionRequest =
  req_model :: string
  messages :: "ChatMessage list"
  max_tokens :: "int option"
  temperature :: "real option"
  top_p :: "real option"
  req_n :: "int option"
  stream :: "bool option"
  stop :: "str_or_list option"
  presence_penalty :: "real option"
  frequency_penalty :: "real option"
  logit_bias :: "(string \<times> real) list option"
  req_user :: "string option"
  tools :: "Tool list option"
  tool_choice :: "str_or_dict option"
  agent_config :: "AgentConfig option"
  memory_config :: "MemoryConfig option"
  mcp_config :: "MCPConfig option"
  context_id :: "string option"
  session_id :: "string option"
  patient_id :: "int option"
  include_patient_context :: "bool option"
  metadata :: "json_dict option"

record ChatCompletionResponse =
  resp_id :: string
  resp_object :: string
  resp_created :: int
  resp_model :: string
  resp_choices :: "json_dict list"
  resp_usage :: "(string \<times> int) list option"
  resp_agent_info :: "json_dict option"
  resp_memory_info :: "json_dict option"
  resp_tool_execution_info :: "json_dict option"

section \<open>The error envelope (app/core/exceptions.py)\<close>

record ErrorDetail =
  detail_type :: string
  detail_message :: string
  detail_field :: "string option"
  detail_code :: "string option"

record ErrorResponse =
  success :: bool
  error :: string
  message :: string
  details :: "ErrorDetail list option"
  status_code :: int
  timestamp :: string
  path :: "string option"
  request_id :: "string option"

text \<open>\<open>model_dump()\<close> of the two classes: a dict of the fields, in their order.\<close>

fun dump_opt_str :: "string option \<Rightarrow> json" where
  "dump_opt_str None = JNull"
| "dump_opt_str (Some s) = JStr s"

definition ErrorDetail_model_dump :: "ErrorDetail \<Rightarrow> json" where
  "ErrorDetail_model_dump d =
     JObj [(''type'', JStr (detail_type d)),
           (''message'', JStr (detail_message d)),
           (''field'', dump_opt_str (detail_field d)),
           (''code'', dump_opt_str (detail_code d))]"

definition ErrorResponse_model_dump :: "ErrorResponse \<Rightarrow> json" where
  "ErrorResponse_model_dump r =
     JObj [(''success'', JBool (success r)),
           (''error'', JStr (error r)),
           (''message'', JStr (message r)),
           (''details'',
              (case details r of None \<Rightarrow> JNull
               | Some ds \<Rightarrow> JArr (map ErrorDetail_model_dump ds))),
           (''status_code'', JInt (status_code r)),
           (''timestamp'', JStr (timestamp r)),
           (''path'', dump_opt_str (path r)),
           (''request_id'', dump_opt_str (request_id r))]"

subsection \<open>Exceptions\<close>

text \<open>
  \<open>HTTPException\<close> and its subclass \<open>BusinessException\<close>, which adds \<open>error_code\<close> and
  \<open>field\<close>. The subclasses of \<open>BusinessException\<close> only fix arguments of its
  constructor; \<open>business_class\<close> records which class an exception is an instance of.
\<close>

type_synonym headers = "(string \<times> string) list"

datatype business_class =
    CBusinessException
  | CValidationException
  | CAuthenticationException
  | CAuthorizationException
  | CNotFoundException
  | CConflictException

datatype http_exception =
    HTTPException int string "headers option"
  | Business business_class int string "string option" "string option" "headers option"

fun exc_status_code :: "http_exception \<Rightarrow> int" where
  "exc_status_code (HTTPException sc d h) = sc"
| "exc_status_code (Business c sc d ec f h) = sc"

fun exc_detail :: "http_exception \<Rightarrow> string" where
  "exc_detail (HTTPException sc d h) = d"
| "exc_detail (Business c sc d ec f h) = d"

text \<open>
  The constructors. An argument with a default value is an option: \<open>None\<close> is the
  omitted argument.
\<close>

definition default_business_detail :: string where
  "default_business_detail =
     [CHR 0xE4, CHR 0xB8, CHR 0x9A, CHR 0xE5, CHR 0x8A, CHR 0xA1, CHR 0xE5, CHR 0xA4, CHR 0x84,
      CHR 0xE7, CHR 0x90, CHR 0x86, CHR 0xE5, CHR 0xBC, CHR 0x82, CHR 0xE5, CHR 0xB8, CHR 0xB8]"

definition default_validation_detail :: string where
  "default_validation_detail =
     [CHR 0xE6, CHR 0x95, CHR 0xB0, CHR 0xE6, CHR 0x8D, CHR 0xAE, CHR 0xE9, CHR 0xAA, CHR 0x8C,
      CHR 0xE8, CHR 0xAF, CHR 0x81, CHR 0xE5, CHR 0xA4, CHR 0xB1, CHR 0xE8, CHR 0xB4, CHR 0xA5]"

definition default_authentication_detail :: string where
  "default_authentication_detail =
     [CHR 0xE8, CHR 0xAE, CHR 0xA4, CHR 0xE8, CHR 0xAF, CHR 0x81, CHR 0xE5, CHR 0xA4, CHR 0xB1,
      CHR 0xE8, CHR 0xB4, CHR 0xA5]"

definition default_authorization_detail :: string where
  "default_authorization_detail =
     [CHR 0xE6, CHR 0x9D, CHR 0x83, CHR 0xE9, CHR 0x99, CHR 0x90, CHR 0xE4, CHR 0xB8, CHR 0x8D,
      CHR 0xE8, CHR 0xB6, CHR 0xB3]"

definition default_not_found_detail :: string where
  "default_not_found_detail =
     [CHR 0xE8, CHR 0xB5, CHR 0x84, CHR 0xE6, CHR 0xBA, CHR 0x90, CHR 0xE4, CHR 0xB8, CHR 0x8D,
      CHR 0xE5, CHR 0xAD, CHR 0x98, CHR 0xE5, CHR 0x9C, CHR 0xA8]"

definition default_conflict_detail :: string where
  "default_conflict_detail =
     [CHR 0xE8, CHR 0xB5, CHR 0x84, CHR 0xE6, CHR 0xBA, CHR 0x90, CHR 0xE5, CHR 0x86, CHR 0xB2,
      CHR 0xE7, CHR 0xAA, CHR 0x81]"

fun or_default :: "'a option \<Rightarrow> 'a \<Rightarrow> 'a" where
  "or_default None d = d"
| "or_default (Some x) d = x"

definition BusinessException ::
  "int option \<Rightarrow> string option \<Rightarrow> string option \<Rightarrow> string option \<Rightarrow> headers option
   \<Rightarrow> http_exception" where
  "BusinessException status_code_arg detail_arg error_code_arg field_arg headers_arg =
     Business CBusinessException (or_default status_code_arg 400)
       (or_default detail_arg default_business_detail) error_code_arg field_arg headers_arg"

definition ValidationException ::
  "string option \<Rightarrow> string option \<Rightarrow> string option \<Rightarrow> http_exception" where
  "ValidationException detail_arg field_arg error_code_arg =
     Business CValidationException 422 (or_default detail_arg default_validation_detail)
       (Some (or_default error_code_arg ''VALIDATION_ERROR'')) field_arg None"

definition AuthenticationException :: "string option \<Rightarrow> string option \<Rightarrow> http_exception" where
  "AuthenticationException detail_arg error_code_arg =
     Business CAuthenticationException 401
       (or_default detail_arg default_authentication_detail)
       (Some (or_default error_code_arg ''AUTHENTICATION_ERROR'')) None
       (Some [(''WWW-Authenticate'', ''Bearer'')])"

definition AuthorizationException :: "string option \<Rightarrow> string option \<Rightarrow> http_exception" where
  "AuthorizationException detail_arg error_code_arg =
     Business CAuthorizationException 403
       (or_default detail_arg default_authorization_detail)
       (Some (or_default error_code_arg ''AUTHORIZATION_ERROR'')) None None"

definition NotFoundException :: "string option \<Rightarrow> string option \<Rightarrow> http_exception" where
  "NotFoundException detail_arg error_code_arg =
     Business CNotFoundException 404 (or_default detail_arg default_not_found_detail)
       (Some (or_default error_code_arg ''NOT_FOUND'')) None None"

definition ConflictException :: "string option \<Rightarrow> string option \<Rightarrow> http_exception" where
  "ConflictException detail_arg error_code_arg =
     Business CConflictException 409 (or_default detail_arg default_conflict_detail)
       (Some (or_default error_code_arg ''CONFLICT'')) None None"

text \<open>
  One entry of \<open>RequestValidationError.errors()\<close>: the location tuple, whose segments are
  strings and list indices, the message and the error type.
\<close>

datatype loc_segment = LStr string | LInt int

fun str_segment :: "loc_segment \<Rightarrow> string" where
  "str_segment (LStr s) = s"
| "str_segment (LInt i) = str_int i"

record validation_error =
  loc :: "loc_segment list"
  msg :: string
  err_type :: string

text \<open>
  An exception as the handlers see it. Of an exception that is neither an
  \<open>HTTPException\<close> nor a \<open>RequestValidationError\<close> the program only reads
  \<open>type(exc).__name__\<close> and \<open>str(exc)\<close>; it is the pair of the two.
  \<open>OtherException\<close> is an instance of \<open>Exception\<close>; \<open>NonException\<close> is an
  instance of \<open>BaseException\<close> only, such as \<open>asyncio.CancelledError\<close>,
  \<open>KeyboardInterrupt\<close> and \<open>SystemExit\<close>.
\<close>

datatype exception =
    HTTPExc http_exception
  | RequestValidationError "validation_error list"
  | OtherException string string
  | NonException string string

text \<open>\<open>isinstance(e, Exception)\<close>: what an \<open>except Exception\<close> clause catches.\<close>

fun is_Exception :: "exception \<Rightarrow> bool" where
  "is_Exception (NonException nm s) = False"
| "is_Exception e = True"

text \<open>
  \<open>str\<close> of an \<open>HTTPException\<close>, as its class defines it in the framework: the status
  code, a colon and the detail.
\<close>

definition http_exception_str :: "http_exception \<Rightarrow> string" where
  "http_exception_str h = str_int (exc_status_code h) @ '': '' @ exc_detail h"

fun business_class_name :: "business_class \<Rightarrow> string" where
  "business_class_name CBusinessException = ''BusinessException''"
| "business_class_name CValidationException = ''ValidationException''"
| "business_class_name CAuthenticationException = ''AuthenticationException''"
| "business_class_name CAuthorizationException = ''AuthorizationException''"
| "business_class_name CNotFoundException = ''NotFoundException''"
| "business_class_name CConflictException = ''ConflictException''"

fun type_name :: "exception \<Rightarrow> string" where
  "type_name (HTTPExc (HTTPException sc d h)) = ''HTTPException''"
| "type_name (HTTPExc (Business c sc d ec f h)) = business_class_name c"
| "type_name (RequestValidationError errs) = ''RequestValidationError''"
| "type_name (OtherException nm s) = nm"
| "type_name (NonException nm s) = nm"

subsection \<open>Log records\<close>

text \<open>
  A call of \<open>logger.info\<close> or \<open>logger.error\<close> is a log record: one constructor for each
  format string of the source, with the values it interpolates.
\<close>

datatype log_record =
    Info_patient_context int "bool option"
  | Info_no_patient_context
  | Info_stream_request ChatCompletionRequest
  | Error_http_exception int string
  | Error_validation "validation_error list"
  | Error_unhandled string string
  | Error_traceback

subsection \<open>The handlers\<close>

text \<open>
  The request a handler is given: \<open>request.url.path\<close> is all that is read of it.
  \<open>create_error_response\<close> tests the request before reading the path, so it takes an
  optional request. \<open>utcnow\<close> is \<open>datetime.utcnow().isoformat()\<close>, the reading of the
  clock.
\<close>

record http_request =
  url_path :: string

fun details_or_empty :: "ErrorDetail list option \<Rightarrow> ErrorDetail list" where
  "details_or_empty None = []"
| "details_or_empty (Some ds) = ds"

definition create_error_response ::
  "string \<Rightarrow> http_request option \<Rightarrow> int \<Rightarrow> string \<Rightarrow> string \<Rightarrow> ErrorDetail list option
   \<Rightarrow> string option \<Rightarrow> ErrorResponse" where
  "create_error_response utcnow request status_code_arg error_arg message_arg details_arg
     request_id_arg =
     \<lparr> success = False,
       error = error_arg,
       message = message_arg,
       details = Some (details_or_empty details_arg),
       status_code = status_code_arg,
       timestamp = utcnow @ ''Z'',
       path = (case request of Some r \<Rightarrow> Some (url_path r) | None \<Rightarrow> None),
       request_id = request_id_arg \<rparr>"

text \<open>A \<open>JSONResponse\<close>: the status code and the content.\<close>

datatype json_response = JSONResponse int json

definition error_type_map :: "(int \<times> string) list" where
  "error_type_map =
     [(400, ''BAD_REQUEST''),
      (401, ''UNAUTHORIZED''),
      (403, ''FORBIDDEN''),
      (404, ''NOT_FOUND''),
      (405, ''METHOD_NOT_ALLOWED''),
      (409, ''CONFLICT''),
      (422, ''UNPROCESSABLE_ENTITY''),
      (500, ''INTERNAL_SERVER_ERROR'')]"

fun http_exception_envelope :: "string \<Rightarrow> http_request \<Rightarrow> http_exception \<Rightarrow> ErrorResponse" where
  "http_exception_envelope utcnow request (Business c sc d ec f h) =
     (let details0 = [];
          details1 =
            (if truthy_str f \<or> truthy_str ec
             then details0 @
               [\<lparr> detail_type = ''business_error'', detail_message = d,
                  detail_field = f, detail_code = ec \<rparr>]
             else details0)
      in create_error_response utcnow (Some request) sc
           (str_or ec ''BUSINESS_ERROR'') d (Some details1) None)"
| "http_exception_envelope utcnow request (HTTPException sc d h) =
     create_error_response utcnow (Some request) sc
       (case map_of error_type_map sc of Some e \<Rightarrow> e | None \<Rightarrow> ''HTTP_ERROR'') d None None"

definition http_exception_handler ::
  "string \<Rightarrow> http_request \<Rightarrow> http_exception \<Rightarrow> log_record list \<times> json_response" where
  "http_exception_handler utcnow request exc =
     ([Error_http_exception (exc_status_code exc) (exc_detail exc)],
      JSONResponse (exc_status_code exc)
        (ErrorResponse_model_dump (http_exception_envelope utcnow request exc)))"

definition validation_message :: string where
  "validation_message =
     [CHR 0xE8, CHR 0xAF, CHR 0xB7, CHR 0xE6, CHR 0xB1, CHR 0x82, CHR 0xE6, CHR 0x95, CHR 0xB0,
      CHR 0xE6, CHR 0x8D, CHR 0xAE, CHR 0xE9, CHR 0xAA, CHR 0x8C, CHR 0xE8, CHR 0xAF, CHR 0x81,
      CHR 0xE5, CHR 0xA4, CHR 0xB1, CHR 0xE8, CHR 0xB4, CHR 0xA5]"

definition field_name :: "validation_error \<Rightarrow> string option" where
  "field_name err =
     (if length (loc err) > 1 then Some (join ''.'' (map str_segment (drop 1 (loc err))))
      else None)"

fun validation_details :: "validation_error list \<Rightarrow> ErrorDetail list" where
  "validation_details [] = []"
| "validation_details (err # errs) =
     \<lparr> detail_type = ''validation_error'', detail_message = msg err,
       detail_field = field_name err, detail_code = Some (err_type err) \<rparr>
     # validation_details errs"

definition validation_envelope ::
  "string \<Rightarrow> http_request \<Rightarrow> validation_error list \<Rightarrow> ErrorResponse" where
  "validation_envelope utcnow request errs =
     create_error_response utcnow (Some request) 422 ''VALIDATION_ERROR'' validation_message
       (Some (validation_details errs)) None"

definition validation_exception_handler ::
  "string \<Rightarrow> http_request \<Rightarrow> validation_error list \<Rightarrow> log_record list \<times> json_response" where
  "validation_exception_handler utcnow request errs =
     ([Error_validation errs],
      JSONResponse 422 (ErrorResponse_model_dump (validation_envelope utcnow request errs)))"

definition generic_message :: string where
  "generic_message =
     [CHR 0xE6, CHR 0x9C, CHR 0x8D, CHR 0xE5, CHR 0x8A, CHR 0xA1, CHR 0xE5, CHR 0x99, CHR 0xA8,
      CHR 0xE5, CHR 0x86, CHR 0x85, CHR 0xE9, CHR 0x83, CHR 0xA8, CHR 0xE9, CHR 0x94, CHR 0x99,
      CHR 0xE8, CHR 0xAF, CHR 0xAF, CHR 0xEF, CHR 0xBC, CHR 0x8C, CHR 0xE8, CHR 0xAF, CHR 0xB7,
      CHR 0xE7, CHR 0xA8, CHR 0x8D, CHR 0xE5, CHR 0x90, CHR 0x8E, CHR 0xE9, CHR 0x87, CHR 0x8D,
      CHR 0xE8, CHR 0xAF, CHR 0x95]"

text \<open>
  \<open>environment\<close> is the value of the variable ENVIRONMENT, \<open>None\<close> when it is not set;
  \<open>str\<close> is Python's \<open>str\<close> on exceptions.
\<close>

definition is_development :: "string option \<Rightarrow> bool" where
  "is_development environment = (or_default environment ''development'' = ''development'')"

definition general_envelope ::
  "string option \<Rightarrow> (exception \<Rightarrow> string) \<Rightarrow> string \<Rightarrow> http_request \<Rightarrow> exception
   \<Rightarrow> ErrorResponse" where
  "general_envelope environment str utcnow request exc =
     (if is_development environment
      then create_error_response utcnow (Some request) 500 ''INTERNAL_SERVER_ERROR''
             (type_name exc @ '': '' @ str exc)
             (Some [\<lparr> detail_type = ''system_error'', detail_message = str exc,
                      detail_field = None, detail_code = Some (type_name exc) \<rparr>]) None
      else create_error_response utcnow (Some request) 500 ''INTERNAL_SERVER_ERROR''
             generic_message (Some []) None)"

definition general_exception_handler ::
  "string option \<Rightarrow> (exception \<Rightarrow> string) \<Rightarrow> string \<Rightarrow> http_request \<Rightarrow> exception
   \<Rightarrow> log_record list \<times> json_response" where
  "general_exception_handler environment str utcnow request exc =
     ([Error_unhandled (type_name exc) (str exc), Error_traceback],
      JSONResponse 500
        (ErrorResponse_model_dump (general_envelope environment str utcnow request exc)))"

section \<open>The streaming relay (app/api/chat.py, generate)\<close>

text \<open>
  An event of the provider's stream: \<open>event.type\<close> and \<open>event.data\<close>.
\<close>

record stream_event =
  event_type :: string
  event_data :: json

text \<open>The two newline characters that end a frame.\<close>

definition nl2 :: string where
  "nl2 = [CHR 0x0A, CHR 0x0A]"

text \<open>
  \<open>generate\<close> of the /colposcopy handler (lines 47-54). The provider's stream is the list
  of the events it would yield; \<open>dumps\<close> is \<open>json.dumps\<close>. The \<open>break\<close> after the
  [DONE] frame leaves the rest of the stream unread.
\<close>

fun colposcopy_generate :: "(json \<Rightarrow> string) \<Rightarrow> stream_event list \<Rightarrow> string list" where
  "colposcopy_generate dumps [] = []"
| "colposcopy_generate dumps (event # rest) =
     (if event_type event = ''message'' \<and> truthy (event_data event)
      then (''data: '' @ dumps (event_data event) @ nl2) # colposcopy_generate dumps rest
      else if event_type event = ''done''
      then [''data: [DONE]'' @ nl2]
      else colposcopy_generate dumps rest)"

text \<open>\<open>generate\<close> of the /completions handler (lines 92-99).\<close>

fun completions_generate :: "(json \<Rightarrow> string) \<Rightarrow> stream_event list \<Rightarrow> string list" where
  "completions_generate dumps [] = []"
| "completions_generate dumps (event # rest) =
     (if event_type event = ''message'' \<and> truthy (event_data event)
      then (''data: '' @ dumps (event_data event) @ nl2) # completions_generate dumps rest
      else if event_type event = ''done''
      then [''data: [DONE]'' @ nl2]
      else completions_generate dumps rest)"

text \<open>
  The frame sequence in the words of the specification: one frame per "message" event with
  a non-empty payload among the events before the first "done" event, then one [DONE]
  frame if there is a "done" event.
\<close>

definition is_done :: "stream_event \<Rightarrow> bool" where
  "is_done e = (event_type e = ''done'')"

definition nonempty_message :: "stream_event \<Rightarrow> bool" where
  "nonempty_message e = (event_type e = ''message'' \<and> truthy (event_data e))"

definition message_frame :: "(json \<Rightarrow> string) \<Rightarrow> stream_event \<Rightarrow> string" where
  "message_frame dumps e = ''data: '' @ dumps (event_data e) @ nl2"

definition done_frame :: string where
  "done_frame = ''data: [DONE]'' @ nl2"

definition spec_frames :: "(json \<Rightarrow> string) \<Rightarrow> stream_event list \<Rightarrow> string list" where
  "spec_frames dumps events =
     map (message_frame dumps)
       (filter nonempty_message (takeWhile (\<lambda>e. \<not> is_done e) events))
     @ (if list_ex is_done events then [done_frame] else [])"

section \<open>The chat endpoints (app/api/chat.py)\<close>

text \<open>
  The provider \<open>ai_chat_service\<close> is outside this program: \<open>chat_completion\<close> returns
  a response or raises, \<open>chat_completion_stream\<close> yields a finite sequence of events.
  The stream is read when the body of the response is sent, after the handler has
  returned; a stream that fails part-way is not modelled.
\<close>

record 'db provider =
  chat_completion :: "'db \<Rightarrow> ChatCompletionRequest \<Rightarrow> exception + ChatCompletionResponse"
  chat_completion_stream :: "'db \<Rightarrow> ChatCompletionRequest \<Rightarrow> stream_event list"

text \<open>
  What a handler does besides returning: the log records it writes and the calls of
  \<open>chat_completion\<close> it makes, in order.
\<close>

datatype 'db effect =
    Log log_record
  | Call_chat_completion 'db ChatCompletionRequest

text \<open>
  What a handler returns: the provider's response, or a \<open>StreamingResponse\<close> with the
  frames of its body, its media type and its headers.
\<close>

datatype handler_result =
    Return ChatCompletionResponse
  | StreamingResponse "string list" string headers

definition stream_headers :: headers where
  "stream_headers =
     [(''Cache-Control'', ''no-cache''),
      (''Connection'', ''keep-alive''),
      (''Content-Type'', ''text/plain; charset=utf-8'')]"

definition patient_log :: "ChatCompletionRequest \<Rightarrow> log_record" where
  "patient_log request =
     (case patient_id request of
        Some pid \<Rightarrow>
          (if pid \<noteq> 0 then Info_patient_context pid (include_patient_context request)
           else Info_no_patient_context)
      | None \<Rightarrow> Info_no_patient_context)"

text \<open>
  The /colposcopy handler (lines 28-71): first the body of the \<open>try\<close>, then the handler
  with its \<open>except Exception\<close> clause, which an exception that is not an instance of
  \<open>Exception\<close> passes unchanged. \<open>str\<close> is Python's \<open>str\<close> on exceptions, \<open>dumps\<close>
  is \<open>json.dumps\<close>.
\<close>

definition colposcopy_try ::
  "(json \<Rightarrow> string) \<Rightarrow> 'db provider \<Rightarrow> ChatCompletionRequest \<Rightarrow> 'f list \<Rightarrow> 'db
   \<Rightarrow> 'db effect list \<times> (exception + handler_result)" where
  "colposcopy_try dumps ai_chat_service request files db =
     (if truthy_bool (stream request)
      then ([Log (patient_log request), Log (Info_stream_request request)],
            Inr (StreamingResponse
                   (colposcopy_generate dumps (chat_completion_stream ai_chat_service db request))
                   ''text/plain'' stream_headers))
      else ([Log (patient_log request), Log (Info_stream_request request),
             Call_chat_completion db request],
            (case chat_completion ai_chat_service db request of
               Inl e \<Rightarrow> Inl e
             | Inr response \<Rightarrow> Inr (Return response))))"

definition colposcopy ::
  "(exception \<Rightarrow> string) \<Rightarrow> (json \<Rightarrow> string) \<Rightarrow> 'db provider \<Rightarrow> ChatCompletionRequest
   \<Rightarrow> 'f list \<Rightarrow> 'db \<Rightarrow> 'db effect list \<times> (exception + handler_result)" where
  "colposcopy str dumps ai_chat_service request files db =
     (case colposcopy_try dumps ai_chat_service request files db of
        (effects, Inl e) \<Rightarrow>
          (if is_Exception e
           then (effects, Inl (HTTPExc (HTTPException 500 (str e) None)))
           else (effects, Inl e))
      | (effects, Inr result) \<Rightarrow> (effects, Inr result))"

text \<open>The /completions handler (lines 74-116).\<close>

definition completions_try ::
  "(json \<Rightarrow> string) \<Rightarrow> 'db provider \<Rightarrow> ChatCompletionRequest \<Rightarrow> 'db
   \<Rightarrow> 'db effect list \<times> (exception + handler_result)" where
  "completions_try dumps ai_chat_service request db =
     (if truthy_bool (stream request)
      then ([Log (patient_log request), Log (Info_stream_request request)],
            Inr (StreamingResponse
                   (completions_generate dumps (chat_completion_stream ai_chat_service db request))
                   ''text/plain'' stream_headers))
      else ([Log (patient_log request), Log (Info_stream_request request),
             Call_chat_completion db request],
            (case chat_completion ai_chat_service db request of
               Inl e \<Rightarrow> Inl e
             | Inr response \<Rightarrow> Inr (Return response))))"

definition completions ::
  "(exception \<Rightarrow> string) \<Rightarrow> (json \<Rightarrow> string) \<Rightarrow> 'db provider \<Rightarrow> ChatCompletionRequest
   \<Rightarrow> 'db \<Rightarrow> 'db effect list \<times> (exception + handler_result)" where
  "completions str dumps ai_chat_service request db =
     (case completions_try dumps ai_chat_service request db of
        (effects, Inl e) \<Rightarrow>
          (if is_Exception e
           then (effects, Inl (HTTPExc (HTTPException 500 (str e) None)))
           else (effects, Inl e))
      | (effects, Inr result) \<Rightarrow> (effects, Inr result))"

section \<open>The application (app/main.py)\<close>

text \<open>
  Lines 59-61 register one handler for \<open>HTTPException\<close>, one for
  \<open>RequestValidationError\<close> and one for \<open>Exception\<close>. The framework gives a raised
  exception to the handler of the nearest registered class of its own class:
  \<open>BusinessException\<close> and its subclasses are \<open>HTTPException\<close>s. An exception that
  is not an instance of \<open>Exception\<close> has no handler: the result is \<open>None\<close>.
\<close>

definition exception_response ::
  "string option \<Rightarrow> (exception \<Rightarrow> string) \<Rightarrow> string \<Rightarrow> http_request \<Rightarrow> exception
   \<Rightarrow> (log_record list \<times> json_response) option" where
  "exception_response environment str utcnow request exc =
     (case exc of
        HTTPExc h \<Rightarrow> Some (http_exception_handler utcnow request h)
      | RequestValidationError errs \<Rightarrow> Some (validation_exception_handler utcnow request errs)
      | OtherException nm s \<Rightarrow>
          Some (general_exception_handler environment str utcnow request exc)
      | NonException nm s \<Rightarrow> None)"

text \<open>
  What the client receives from a chat endpoint: the response of an exception handler when
  the endpoint raised, the returned model with status 200, or the stream with status 200.
  \<open>Unhandled\<close> is the exception that no handler took: it leaves the application and
  the client receives no response from it.
\<close>

datatype http_response =
    Error_response json_response
  | Model_response int ChatCompletionResponse
  | Stream_response int "string list" string headers
  | Unhandled exception

definition respond ::
  "string option \<Rightarrow> (exception \<Rightarrow> string) \<Rightarrow> string \<Rightarrow> http_request
   \<Rightarrow> exception + handler_result \<Rightarrow> http_response" where
  "respond environment str utcnow request outcome =
     (case outcome of
        Inl exc \<Rightarrow>
          (case exception_response environment str utcnow request exc of
             Some (logs, response) \<Rightarrow> Error_response response
           | None \<Rightarrow> Unhandled exc)
      | Inr (Return response) \<Rightarrow> Model_response 200 response
      | Inr (StreamingResponse frames media_type hs) \<Rightarrow> Stream_response 200 frames media_type hs)"

section \<open>Request validation (the classes of app/schemas/chat.py as pydantic reads them)\<close>

text \<open>
  The framework validates the JSON body of a request against the class
  \<open>ChatCompletionRequest\<close> before it calls a handler. What a class accepts is fixed by
  its declaration: the fields in their order, the type of each and its default. A
  declaration is a value of \<open>ftype\<close>; a field is its name, its type and its default,
  \<open>None\<close> for a required field (\<open>Field(...)\<close>).
\<close>

datatype ftype =
    TAny
  | TStr
  | TInt
  | TFloat
  | TBool
  | TLiteral "string list"
  | TOptional ftype
  | TList ftype
  | TDict ftype
  | TUnion ftype ftype
  | TModel string "(string \<times> ftype \<times> json option) list"

text \<open>
  A validation error: where it is, and what it is, a required field that is missing or an
  input that the type does not take.
\<close>

datatype vkind = Missing | Mismatch ftype json

type_synonym verr = "loc_segment list \<times> vkind"

definition at_loc :: "loc_segment \<Rightarrow> verr list + 'a \<Rightarrow> verr list + 'a" where
  "at_loc s r = (case r of Inl errs \<Rightarrow> Inl (map (\<lambda>(l, k). (s # l, k)) errs) | Inr v \<Rightarrow> Inr v)"

text \<open>
  The results of the parts of a value: all the errors when there is one, the values
  otherwise. Validation does not stop at the first error.
\<close>

fun collect :: "('e list + 'a) list \<Rightarrow> 'e list + 'a list" where
  "collect [] = Inr []"
| "collect (r # rs) =
     (case r of
        Inl e \<Rightarrow> (case collect rs of Inl es \<Rightarrow> Inl (e @ es) | Inr xs \<Rightarrow> Inl e)
      | Inr x \<Rightarrow> (case collect rs of Inl es \<Rightarrow> Inl es | Inr xs \<Rightarrow> Inr (x # xs)))"

text \<open>
  In its default (lax) mode pydantic converts some inputs of another scalar type, such as
  the string "5" given for an int. The table of these conversions belongs to the library:
  it is the parameter \<open>conv\<close>, asked only when a scalar input is not of the declared type
  as it stands. \<open>None\<close>, lists and dicts are never converted to a scalar.
\<close>

type_synonym conversion = "ftype \<Rightarrow> json \<Rightarrow> json option"

fun scalar_input :: "json \<Rightarrow> bool" where
  "scalar_input (JBool b) = True"
| "scalar_input (JInt i) = True"
| "scalar_input (JFloat r) = True"
| "scalar_input (JStr s) = True"
| "scalar_input j = False"

definition convert :: "conversion \<Rightarrow> ftype \<Rightarrow> json \<Rightarrow> verr list + json" where
  "convert conv t j =
     (if scalar_input j
      then (case conv t j of Some j' \<Rightarrow> Inr j' | None \<Rightarrow> Inl [([], Mismatch t j)])
      else Inl [([], Mismatch t j)])"

text \<open>The strict mode: no conversion.\<close>

definition strict :: conversion where
  "strict t j = None"

text \<open>The name of a member of a union in the location of an error.\<close>

fun type_tag :: "ftype \<Rightarrow> string" where
  "type_tag TAny = ''any''"
| "type_tag TStr = ''str''"
| "type_tag TInt = ''int''"
| "type_tag TFloat = ''float''"
| "type_tag TBool = ''bool''"
| "type_tag (TLiteral vs) =
     ''literal['' @ join '','' (map (\<lambda>v. [CHR 0x27] @ v @ [CHR 0x27]) vs) @ '']''"
| "type_tag (TOptional t) = ''nullable['' @ type_tag t @ '']''"
| "type_tag (TList t) = ''list['' @ type_tag t @ '']''"
| "type_tag (TDict t) = ''dict[str,'' @ type_tag t @ '']''"
| "type_tag (TUnion a b) = ''union['' @ type_tag a @ '','' @ type_tag b @ '']''"
| "type_tag (TModel nm fs) = nm"

fun enumerate_from :: "int \<Rightarrow> 'a list \<Rightarrow> (int \<times> 'a) list" where
  "enumerate_from i [] = []"
| "enumerate_from i (x # xs) = (i, x) # enumerate_from (i + 1) xs"

text \<open>
  Validation of a value against a type: the errors, or the validated value in the form
  \<open>model_dump()\<close> gives it back. A model takes a dict: each declared field is looked up,
  validated when it is there, set to its default when it is not, an error when it is
  required; keys that are not declared are ignored (the classes leave \<open>extra\<close> at its
  default). A union first tries its members without conversion, then with.
\<close>

fun validate :: "conversion \<Rightarrow> ftype \<Rightarrow> json \<Rightarrow> verr list + json" where
  "validate conv TAny j = Inr j"
| "validate conv TStr j = (case j of JStr s \<Rightarrow> Inr j | _ \<Rightarrow> convert conv TStr j)"
| "validate conv TInt j = (case j of JInt i \<Rightarrow> Inr j | _ \<Rightarrow> convert conv TInt j)"
| "validate conv TFloat j = (case j of JFloat r \<Rightarrow> Inr j | _ \<Rightarrow> convert conv TFloat j)"
| "validate conv TBool j = (case j of JBool b \<Rightarrow> Inr j | _ \<Rightarrow> convert conv TBool j)"
| "validate conv (TLiteral vs) j =
     (case j of
        JStr s \<Rightarrow> (if s \<in> set vs then Inr j else Inl [([], Mismatch (TLiteral vs) j)])
      | _ \<Rightarrow> Inl [([], Mismatch (TLiteral vs) j)])"
| "validate conv (TOptional t) j = (case j of JNull \<Rightarrow> Inr JNull | _ \<Rightarrow> validate conv t j)"
| "validate conv (TList t) j =
     (case j of
        JArr xs \<Rightarrow>
          (case collect (map (\<lambda>(i, x). at_loc (LInt i) (validate conv t x))
                           (enumerate_from 0 xs)) of
             Inl errs \<Rightarrow> Inl errs
           | Inr ys \<Rightarrow> Inr (JArr ys))
      | _ \<Rightarrow> Inl [([], Mismatch (TList t) j)])"
| "validate conv (TDict t) j =
     (case j of
        JObj kvs \<Rightarrow>
          (case collect (map (\<lambda>(k, v). case at_loc (LStr k) (validate conv t v) of
                                          Inl errs \<Rightarrow> Inl errs
                                        | Inr v' \<Rightarrow> Inr (k, v')) kvs) of
             Inl errs \<Rightarrow> Inl errs
           | Inr out \<Rightarrow> Inr (JObj out))
      | _ \<Rightarrow> Inl [([], Mismatch (TDict t) j)])"
| "validate conv (TUnion a b) j =
     (case validate strict a j of
        Inr v \<Rightarrow> Inr v
      | Inl strict_a \<Rightarrow>
          (case validate strict b j of
             Inr v \<Rightarrow> Inr v
           | Inl strict_b \<Rightarrow>
               (case validate conv a j of
                  Inr v \<Rightarrow> Inr v
                | Inl errs_a \<Rightarrow>
                    (case validate conv b j of
                       Inr v \<Rightarrow> Inr v
                     | Inl errs_b \<Rightarrow>
                         Inl (map (\<lambda>(l, k). (LStr (type_tag a) # l, k)) errs_a
                              @ map (\<lambda>(l, k). (LStr (type_tag b) # l, k)) errs_b)))))"
| "validate conv (TModel nm fs) j =
     (case j of
        JObj kvs \<Rightarrow>
          (case collect (map (\<lambda>(name, t, dflt).
                                case map_of kvs name of
                                  None \<Rightarrow> (case dflt of
                                             None \<Rightarrow> Inl [([LStr name], Missing)]
                                           | Some d \<Rightarrow> Inr (name, d))
                                | Some v \<Rightarrow> (case at_loc (LStr name) (validate conv t v) of
                                               Inl errs \<Rightarrow> Inl errs
                                             | Inr v' \<Rightarrow> Inr (name, v'))) fs) of
             Inl errs \<Rightarrow> Inl errs
           | Inr out \<Rightarrow> Inr (JObj out))
      | _ \<Rightarrow> Inl [([], Mismatch (TModel nm fs) j)])"

text \<open>The result for one field of a model, as \<open>validate\<close> computes it.\<close>

definition validate_field ::
  "conversion \<Rightarrow> json_dict \<Rightarrow> string \<times> ftype \<times> json option \<Rightarrow> verr list + string \<times> json" where
  "validate_field conv kvs f =
     (case f of (name, t, dflt) \<Rightarrow>
        (case map_of kvs name of
           None \<Rightarrow> (case dflt of
                      None \<Rightarrow> Inl [([LStr name], Missing)]
                    | Some d \<Rightarrow> Inr (name, d))
         | Some v \<Rightarrow> (case at_loc (LStr name) (validate conv t v) of
                        Inl errs \<Rightarrow> Inl errs
                      | Inr v' \<Rightarrow> Inr (name, v'))))"

subsection \<open>The classes\<close>

definition ChatMessage_fields :: "(string \<times> ftype \<times> json option) list" where
  "ChatMessage_fields =
     [(''role'', TLiteral [''system'', ''user'', ''assistant'', ''function'', ''tool''], None),
      (''content'', TOptional TStr, Some JNull),
      (''name'', TOptional TStr, Some JNull),
      (''function_call'', TOptional (TDict TAny), Some JNull),
      (''tool_calls'', TOptional (TList (TDict TAny)), Some JNull),
      (''tool_call_id'', TOptional TStr, Some JNull)]"

definition Tool_fields :: "(string \<times> ftype \<times> json option) list" where
  "Tool_fields =
     [(''type'', TLiteral [''function''], Some (JStr ''function'')),
      (''function'', TDict TAny, None)]"

definition AgentConfig_fields :: "(string \<times> ftype \<times> json option) list" where
  "AgentConfig_fields =
     [(''agent_type'', TLiteral [''medical'', ''general'', ''specialist''], None),
      (''specialization'', TOptional TStr, Some JNull),
      (''personality'', TOptional TStr, Some JNull),
      (''guidelines'', TOptional (TList TStr), Some JNull),
      (''tools_enabled'', TOptional (TList TStr), Some JNull),
      (''max_iterations'', TOptional TInt, Some (JInt 3)),
      (''reasoning_mode'',
         TOptional (TLiteral [''chain_of_thought'', ''tree_of_thought'', ''reflection'']),
         Some (JStr ''chain_of_thought''))]"

definition MemoryConfig_fields :: "(string \<times> ftype \<times> json option) list" where
  "MemoryConfig_fields =
     [(''memory_type'', TLiteral [''conversation'', ''episodic'', ''semantic'', ''working''],
         None),
      (''retention_policy'', TOptional (TLiteral [''session'', ''persistent'', ''temporary'']),
         Some (JStr ''session'')),
      (''max_memory_size'', TOptional TInt, Some (JInt 100)),
      (''compression_enabled'', TOptional TBool, Some (JBool True)),
      (''retrieval_strategy'', TOptional (TLiteral [''recent'', ''relevant'', ''hybrid'']),
         Some (JStr ''hybrid''))]"

definition MCPConfig_fields :: "(string \<times> ftype \<times> json option) list" where
  "MCPConfig_fields =
     [(''context_window_size'', TInt, Some (JInt 4096)),
      (''context_compression'', TBool, Some (JBool True)),
      (''relevance_threshold'', TFloat, Some (JFloat 0.7)),
      (''context_sources'', TList TStr, Some (JArr [])),
      (''dynamic_context'', TBool, Some (JBool True))]"

definition ChatCompletionRequest_fields :: "(string \<times> ftype \<times> json option) list" where
  "ChatCompletionRequest_fields =
     [(''model'', TStr, None),
      (''messages'', TList (TModel ''ChatMessage'' ChatMessage_fields), None),
      (''max_tokens'', TOptional TInt, Some (JInt 1000)),
      (''temperature'', TOptional TFloat, Some (JFloat 0.7)),
      (''top_p'', TOptional TFloat, Some (JFloat 1.0)),
      (''n'', TOptional TInt, Some (JInt 1)),
      (''stream'', TOptional TBool, Some (JBool False)),
      (''stop'', TOptional (TUnion TStr (TList TStr)), Some JNull),
      (''presence_penalty'', TOptional TFloat, Some (JFloat 0.0)),
      (''frequency_penalty'', TOptional TFloat, Some (JFloat 0.0)),
      (''logit_bias'', TOptional (TDict TFloat), Some JNull),
      (''user'', TOptional TStr, Some JNull),
      (''tools'', TOptional (TList (TModel ''Tool'' Tool_fields)), Some JNull),
      (''tool_choice'', TOptional (TUnion TStr (TDict TAny)), Some JNull),
      (''agent_config'', TOptional (TModel ''AgentConfig'' AgentConfig_fields), Some JNull),
      (''memory_config'', TOptional (TModel ''MemoryConfig'' MemoryConfig_fields), Some JNull),
      (''mcp_config'', TOptional (TModel ''MCPConfig'' MCPConfig_fields), Some JNull),
      (''context_id'', TOptional TStr, Some JNull),
      (''session_id'', TOptional TStr, Some JNull),
      (''patient_id'', TOptional TInt, Some JNull),
      (''include_patient_context'', TOptional TBool, Some (JBool False)),
      (''metadata'', TOptional (TDict TAny), Some JNull)]"

definition ChatMessage_type :: ftype where
  "ChatMessage_type = TModel ''ChatMessage'' ChatMessage_fields"

definition ChatCompletionRequest_type :: ftype where
  "ChatCompletionRequest_type = TModel ''ChatCompletionRequest'' ChatCompletionRequest_fields"

text \<open>
  What the validation-exception handler is given when the body of a request is rejected:
  each error of the validation, its location behind the segment "body". The message and
  the type of an error are pydantic's texts for its kind, the parameter \<open>describe\<close>: the
  pair of the message and the type.
\<close>

definition request_validation_errors ::
  "(vkind \<Rightarrow> string \<times> string) \<Rightarrow> conversion \<Rightarrow> json \<Rightarrow> validation_error list" where
  "request_validation_errors describe conv body =
     (case validate conv ChatCompletionRequest_type body of
        Inl errs \<Rightarrow>
          map (\<lambda>(l, k). \<lparr> loc = LStr ''body'' # l, msg = fst (describe k),
                            err_type = snd (describe k) \<rparr>) errs
      | Inr request \<Rightarrow> [])"

subsection \<open>Round trips\<close>









text \<open>
  The field path in the words of the specification: the location without its leading
  segment, joined with dots.
\<close>

definition spec_field_path :: "loc_segment list \<Rightarrow> string" where
  "spec_field_path l = join ''.'' (map str_segment (tl l))"



subsection \<open>Examples of the library's tables\<close>

text \<open>
  One conversion of the lax mode: a string of decimal digits given for an int is the int
  it denotes. The other conversions are left out of this example.
\<close>

definition int_of_digits :: "string \<Rightarrow> int option" where
  "int_of_digits s =
     (if s \<noteq> [] \<and> list_all (\<lambda>c. c \<in> set ''0123456789'') s
      then Some (foldl (\<lambda>a c. 10 * a + (int (of_char c) - 48)) 0 s)
      else None)"

fun digits_conversion :: conversion where
  "digits_conversion TInt (JStr s) = map_option JInt (int_of_digits s)"
| "digits_conversion t j = None"

text \<open>
  The message and the type of a missing field and of a body that is not a dict, as
  pydantic 2 words them; one text for every other error.
\<close>

fun example_describe :: "vkind \<Rightarrow> string \<times> string" where
  "example_describe Missing = (''Field required'', ''missing'')"
| "example_describe (Mismatch (TModel nm fs) j) =
     (''Input should be a valid dictionary or object to extract fields from'',
      ''model_attributes_type'')"
| "example_describe (Mismatch t j) = (''Input is not valid'', ''invalid'')"

section \<open>Observations and example inputs\<close>

text \<open>The calls of \<open>chat_completion\<close> among the effects of a handler, in order.\<close>

definition chat_completion_calls :: "'db effect list \<Rightarrow> ('db \<times> ChatCompletionRequest) list" where
  "chat_completion_calls effects =
     concat (map (\<lambda>e. case e of Call_chat_completion d r \<Rightarrow> [(d, r)] | Log l \<Rightarrow> []) effects)"

text \<open>
  The example request of \<open>ChatCompletionRequest.Config\<close>, with the defaults of the fields
  it leaves out, and the same request with \<open>stream\<close> set.
\<close>

definition example_content :: string where
  "example_content =
     [CHR 0xE8, CHR 0xAF, CHR 0xB7, CHR 0xE5, CHR 0x88, CHR 0x86, CHR 0xE6, CHR 0x9E, CHR 0x90,
      CHR 0x47, CHR 0x49, CHR 0x53, CHR 0x54, CHR 0xE7, CHR 0x9A, CHR 0x84, CHR 0xE6, CHR 0xB2,
      CHR 0xBB, CHR 0xE7, CHR 0x96, CHR 0x97, CHR 0xE6, CHR 0x96, CHR 0xB9, CHR 0xE6, CHR 0xA1,
      CHR 0x88]"

definition example_request :: ChatCompletionRequest where
  "example_request =
     \<lparr> req_model = ''gpt-4'',
       messages = [\<lparr> role = ''user'', content = Some example_content, msg_name = None,
                     function_call = None, tool_calls = None, tool_call_id = None \<rparr>],
       max_tokens = Some 1000, temperature = Some 0.7, top_p = Some 1.0, req_n = Some 1,
       stream = Some False, stop = None, presence_penalty = Some 0.0,
       frequency_penalty = Some 0.0, logit_bias = None, req_user = None, tools = None,
       tool_choice = None, agent_config = None, memory_config = None, mcp_config = None,
       context_id = None, session_id = Some ''session_123'', patient_id = None,
       include_patient_context = Some False, metadata = None \<rparr>"

text \<open>The example response of \<open>ChatCompletionResponse.Config\<close>, without its text.\<close>

definition example_response :: ChatCompletionResponse where
  "example_response =
     \<lparr> resp_id = ''chatcmpl-123'', resp_object = ''chat.completion'',
       resp_created = 1677652288, resp_model = ''gpt-4'',
       resp_choices = [ [(''index'', JInt 0), (''finish_reason'', JStr ''stop'')] ],
       resp_usage = Some [(''prompt_tokens'', 10), (''completion_tokens'', 100),
                          (''total_tokens'', 110)],
       resp_agent_info = None, resp_memory_info = None, resp_tool_execution_info = None \<rparr>"

text \<open>
  Providers: one that returns the example response and streams nothing, one that raises a
  given exception.
\<close>

definition returning_provider :: "unit provider" where
  "returning_provider =
     \<lparr> chat_completion = (\<lambda>db request. Inr example_response),
       chat_completion_stream = (\<lambda>db request. []) \<rparr>"

definition raising_provider :: "exception \<Rightarrow> unit provider" where
  "raising_provider e =
     \<lparr> chat_completion = (\<lambda>db request. Inl e),
       chat_completion_stream = (\<lambda>db request. []) \<rparr>"

text \<open>The example request with \<open>stream\<close> set, and a provider that streams given events.\<close>

definition streaming_request :: ChatCompletionRequest where
  "streaming_request = example_request\<lparr> stream := Some True \<rparr>"

definition streaming_provider :: "stream_event list \<Rightarrow> unit provider" where
  "streaming_provider events =
     \<lparr> chat_completion = (\<lambda>db request. Inr example_response),
       chat_completion_stream = (\<lambda>db request. events) \<rparr>"

text \<open>
  A \<open>str\<close> on exceptions for the examples: \<open>http_exception_str\<close> of an
  \<open>HTTPException\<close>, the text of any other exception.
\<close>

fun example_str :: "exception \<Rightarrow> string" where
  "example_str (HTTPExc h) = http_exception_str h"
| "example_str (RequestValidationError errs) = ''validation error''"
| "example_str (OtherException nm s) = s"
| "example_str (NonException nm s) = s"

definition example_http_request :: http_request where
  "example_http_request = \<lparr> url_path = ''/api/v1/chat/completions'' \<rparr>"

text \<open>A stream event with the given type and payload.\<close>

definition stream_event :: "string \<Rightarrow> json \<Rightarrow> stream_event" where
  "stream_event t d = \<lparr> event_type = t, event_data = d \<rparr>"

text \<open>A request body that lacks the field "messages".\<close>

definition body_without_messages :: json_dict where
  "body_without_messages = [(''model'', JStr ''gpt-4''), (''max_tokens'', JInt 1000)]"






section \<open>Properties of the streaming relay\<close>

lemma colposcopy_generate_spec:
  "colposcopy_generate dumps events = spec_frames dumps events"
proof (induction events)
  case Nil
  show ?case by (simp add: spec_frames_def)
next
  case (Cons e es)
  then show ?case
    by (simp add: spec_frames_def is_done_def nonempty_message_def message_frame_def
        done_frame_def)
qed

lemma completions_generate_colposcopy:
  "completions_generate dumps events = colposcopy_generate dumps events"
  by (induction events) simp_all

lemma spec_frames_done:
  "is_done d \<Longrightarrow> \<not> list_ex is_done pre \<Longrightarrow>
   spec_frames dumps (pre @ d # rest) =
     map (message_frame dumps) (filter nonempty_message pre) @ [done_frame]"
  by (simp add: spec_frames_def list_ex_iff takeWhile_append2)

lemma spec_frames_skip:
  "\<not> nonempty_message e \<Longrightarrow> \<not> is_done e \<Longrightarrow>
   spec_frames dumps (pre @ e # rest) = spec_frames dumps (pre @ rest)"
proof (induction pre)
  case Nil
  then show ?case by (simp add: spec_frames_def)
next
  case (Cons p ps)
  then show ?case by (auto simp add: spec_frames_def list_ex_iff)
qed

section \<open>Properties of the chat endpoints\<close>

lemma colposcopy_try_completions_try:
  "colposcopy_try dumps ai request files db = completions_try dumps ai request db"
  by (simp add: colposcopy_try_def completions_try_def completions_generate_colposcopy)

lemma colposcopy_completions:
  "colposcopy str dumps ai request files db = completions str dumps ai request db"
  by (simp add: colposcopy_def completions_def colposcopy_try_completions_try)

lemma completions_returns:
  "\<not> truthy_bool (stream request) \<Longrightarrow> chat_completion ai db request = Inr response \<Longrightarrow>
   completions str dumps ai request db =
     ([Log (patient_log request), Log (Info_stream_request request),
       Call_chat_completion db request], Inr (Return response))"
  by (simp add: completions_def completions_try_def)

lemma completions_raises:
  "\<not> truthy_bool (stream request) \<Longrightarrow> chat_completion ai db request = Inl e \<Longrightarrow>
   is_Exception e \<Longrightarrow>
   completions str dumps ai request db =
     ([Log (patient_log request), Log (Info_stream_request request),
       Call_chat_completion db request], Inl (HTTPExc (HTTPException 500 (str e) None)))"
  by (simp add: completions_def completions_try_def)

lemma completions_passes:
  "\<not> truthy_bool (stream request) \<Longrightarrow> chat_completion ai db request = Inl e \<Longrightarrow>
   \<not> is_Exception e \<Longrightarrow>
   completions str dumps ai request db =
     ([Log (patient_log request), Log (Info_stream_request request),
       Call_chat_completion db request], Inl e)"
  by (simp add: completions_def completions_try_def)

lemma respond_unhandled:
  "\<not> is_Exception e \<Longrightarrow> respond environment str utcnow request (Inl e) = Unhandled e"
  by (cases e) (simp_all add: respond_def exception_response_def)

lemma completions_streams:
  "truthy_bool (stream request) \<Longrightarrow>
   completions str dumps ai request db =
     ([Log (patient_log request), Log (Info_stream_request request)],
      Inr (StreamingResponse
             (completions_generate dumps (chat_completion_stream ai db request))
             ''text/plain'' stream_headers))"
  by (simp add: completions_def completions_try_def)

lemma respond_http_500:
  "respond environment str utcnow request (Inl (HTTPExc (HTTPException 500 d None))) =
     Error_response (JSONResponse 500 (ErrorResponse_model_dump
       \<lparr> success = False, error = ''INTERNAL_SERVER_ERROR'', message = d,
         details = Some [], status_code = 500, timestamp = utcnow @ ''Z'',
         path = Some (url_path request), request_id = None \<rparr>))"
  by (simp add: respond_def exception_response_def http_exception_handler_def
      create_error_response_def error_type_map_def)

text \<open>
  C1. In both endpoints the body of the response to a request with \<open>stream\<close> true is,
  in order, one frame \<open>data: <json>\<close> and two newlines for each "message" event with a
  non-empty payload before the first "done" event, then the frame \<open>data: [DONE]\<close> and
  two newlines for that "done" event, and nothing after it, whatever the provider's stream
  holds behind it. A "message" event whose payload is empty or absent produces no frame:
  the frames are those of the stream without it. A payload is empty when Python takes it
  for false. A stream without a "done" event ends without the [DONE] frame.
\<close>

theorem sse_frame_sequence:
  "colposcopy_generate dumps events = spec_frames dumps events
   \<and> completions_generate dumps events = spec_frames dumps events
   \<and> (truthy_bool (stream request) \<longrightarrow>
        snd (completions str dumps ai request db) =
          Inr (StreamingResponse (spec_frames dumps (chat_completion_stream ai db request))
                 ''text/plain'' stream_headers)
        \<and> snd (colposcopy str dumps ai request files db) =
          Inr (StreamingResponse (spec_frames dumps (chat_completion_stream ai db request))
                 ''text/plain'' stream_headers)
        \<and> respond environment str utcnow http_req (snd (completions str dumps ai request db)) =
          Stream_response 200 (spec_frames dumps (chat_completion_stream ai db request))
            ''text/plain'' stream_headers)
   \<and> (is_done d \<and> \<not> list_ex is_done pre \<longrightarrow>
        completions_generate dumps (pre @ d # rest) =
          map (message_frame dumps) (filter nonempty_message pre) @ [done_frame]
        \<and> colposcopy_generate dumps (pre @ d # rest) =
          map (message_frame dumps) (filter nonempty_message pre) @ [done_frame])
   \<and> (event_type e = ''message'' \<and> \<not> truthy (event_data e) \<longrightarrow>
        completions_generate dumps (pre @ e # rest) = completions_generate dumps (pre @ rest)
        \<and> colposcopy_generate dumps (pre @ e # rest) = colposcopy_generate dumps (pre @ rest))"
proof -
  have skip: "event_type e = ''message'' \<and> \<not> truthy (event_data e) \<Longrightarrow>
        spec_frames dumps (pre @ e # rest) = spec_frames dumps (pre @ rest)"
    by (rule spec_frames_skip) (simp_all add: nonempty_message_def is_done_def)
  have streamed: "truthy_bool (stream request) \<Longrightarrow>
        snd (completions str dumps ai request db) =
          Inr (StreamingResponse (spec_frames dumps (chat_completion_stream ai db request))
                 ''text/plain'' stream_headers)"
    by (simp add: completions_streams completions_generate_colposcopy colposcopy_generate_spec)
  show ?thesis
    using skip streamed
    by (simp add: completions_generate_colposcopy colposcopy_generate_spec spec_frames_done
        colposcopy_completions respond_def)
qed

theorem sse_frame_sequence_witness:
  "truthy_bool (stream streaming_request)
   \<and> snd (completions example_str (\<lambda>d. ''{}'')
           (streaming_provider
              [stream_event ''message'' (JObj [(''id'', JInt 1)]),
               stream_event ''message'' JNull, stream_event ''message'' (JObj []),
               stream_event ''done'' JNull,
               stream_event ''message'' (JObj [(''id'', JInt 2)])])
           streaming_request ())
     = Inr (StreamingResponse [''data: {}'' @ nl2, ''data: [DONE]'' @ nl2]
              ''text/plain'' stream_headers)
   \<and> is_done (stream_event ''done'' JNull)
   \<and> \<not> list_ex is_done
         [stream_event ''message'' (JObj [(''id'', JInt 1)]), stream_event ''message'' JNull,
          stream_event ''message'' (JObj [])]
   \<and> event_type (stream_event ''message'' JNull) = ''message''
   \<and> \<not> truthy (event_data (stream_event ''message'' JNull))
   \<and> completions_generate (\<lambda>d. ''{}'')
        ([stream_event ''message'' (JObj [(''id'', JInt 1)]), stream_event ''message'' JNull,
          stream_event ''message'' (JObj [])]
         @ stream_event ''done'' JNull # [stream_event ''message'' (JObj [(''id'', JInt 2)])])
      = [''data: {}'' @ nl2, ''data: [DONE]'' @ nl2]
   \<and> colposcopy_generate (\<lambda>d. ''{}'')
        ([stream_event ''message'' (JObj [(''id'', JInt 1)])]
         @ stream_event ''message'' JNull # [stream_event ''done'' JNull])
      = colposcopy_generate (\<lambda>d. ''{}'')
        ([stream_event ''message'' (JObj [(''id'', JInt 1)])] @ [stream_event ''done'' JNull])"
proof -
  have h: "truthy_bool (stream streaming_request)"
    by (simp add: streaming_request_def)
  from sse_frame_sequence [of "\<lambda>d. ''{}''" "[]" streaming_request example_str
      "streaming_provider
              [stream_event ''message'' (JObj [(''id'', JInt 1)]),
               stream_event ''message'' JNull, stream_event ''message'' (JObj []),
               stream_event ''done'' JNull,
               stream_event ''message'' (JObj [(''id'', JInt 2)])]" "()" "[]::unit list"
      None "''2025-01-01T00:00:00''" example_http_request
      "stream_event ''done'' JNull"
      "[stream_event ''message'' (JObj [(''id'', JInt 1)]), stream_event ''message'' JNull,
        stream_event ''message'' (JObj [])]"
      "[stream_event ''message'' (JObj [(''id'', JInt 2)])]" "stream_event ''message'' JNull"]
    h
  have first: "snd (completions example_str (\<lambda>d. ''{}'')
           (streaming_provider
              [stream_event ''message'' (JObj [(''id'', JInt 1)]),
               stream_event ''message'' JNull, stream_event ''message'' (JObj []),
               stream_event ''done'' JNull,
               stream_event ''message'' (JObj [(''id'', JInt 2)])])
           streaming_request ())
     = Inr (StreamingResponse [''data: {}'' @ nl2, ''data: [DONE]'' @ nl2]
              ''text/plain'' stream_headers)
   \<and> completions_generate (\<lambda>d. ''{}'')
        ([stream_event ''message'' (JObj [(''id'', JInt 1)]), stream_event ''message'' JNull,
          stream_event ''message'' (JObj [])]
         @ stream_event ''done'' JNull # [stream_event ''message'' (JObj [(''id'', JInt 2)])])
      = [''data: {}'' @ nl2, ''data: [DONE]'' @ nl2]"
    by (simp add: stream_event_def is_done_def nonempty_message_def message_frame_def
        done_frame_def streaming_provider_def spec_frames_def)
  from sse_frame_sequence [of "\<lambda>d. ''{}''" "[]" streaming_request example_str
      "streaming_provider []" "()" "[]::unit list"
      None "''2025-01-01T00:00:00''" example_http_request
      "stream_event ''done'' JNull"
      "[stream_event ''message'' (JObj [(''id'', JInt 1)])]"
      "[stream_event ''done'' JNull]" "stream_event ''message'' JNull"]
  have second: "colposcopy_generate (\<lambda>d. ''{}'')
        ([stream_event ''message'' (JObj [(''id'', JInt 1)])]
         @ stream_event ''message'' JNull # [stream_event ''done'' JNull])
      = colposcopy_generate (\<lambda>d. ''{}'')
        ([stream_event ''message'' (JObj [(''id'', JInt 1)])] @ [stream_event ''done'' JNull])"
    by (simp add: stream_event_def)
  from h first second show ?thesis
    by (simp add: stream_event_def is_done_def)
qed

text \<open>
  C2. When \<open>stream\<close> is false (or absent), each chat endpoint calls the provider's
  \<open>chat_completion\<close> exactly once, with the session and the request it was given, and
  when that call returns a response the endpoint returns this very response, which the
  client receives with status 200.
\<close>

theorem non_stream_returns_provider_result:
  assumes "\<not> truthy_bool (stream request)"
    and "chat_completion ai db request = Inr response"
  shows "chat_completion_calls (fst (completions str dumps ai request db)) = [(db, request)]
    \<and> chat_completion_calls (fst (colposcopy str dumps ai request files db)) = [(db, request)]
    \<and> snd (completions str dumps ai request db) = Inr (Return response)
    \<and> snd (colposcopy str dumps ai request files db) = Inr (Return response)
    \<and> respond environment str utcnow http_req (snd (completions str dumps ai request db))
        = Model_response 200 response
    \<and> respond environment str utcnow http_req (snd (colposcopy str dumps ai request files db))
        = Model_response 200 response"
  using assms
  by (simp add: colposcopy_completions completions_returns chat_completion_calls_def respond_def)

theorem non_stream_returns_provider_result_witness:
  "\<not> truthy_bool (stream example_request)
   \<and> chat_completion returning_provider () example_request = Inr example_response
   \<and> chat_completion_calls
        (fst (completions example_str (\<lambda>d. ''{}'') returning_provider example_request ()))
      = [((), example_request)]
   \<and> respond None example_str ''2025-01-01T00:00:00'' example_http_request
        (snd (completions example_str (\<lambda>d. ''{}'') returning_provider example_request ()))
      = Model_response 200 example_response"
proof -
  have h1: "\<not> truthy_bool (stream example_request)"
    by (simp add: example_request_def)
  have h2: "chat_completion returning_provider () example_request = Inr example_response"
    by (simp add: returning_provider_def)
  show ?thesis
    using h1 h2 non_stream_returns_provider_result [OF h1 h2, of example_str "\<lambda>d. ''{}''"
        "[]::unit list" None "''2025-01-01T00:00:00''" example_http_request]
    by blast
qed

text \<open>
  C3 (as amended). When the body of a chat endpoint raises an exception that is an
  instance of \<open>Exception\<close> before a streaming response begins, the endpoint raises
  \<open>HTTPException(500, str(e))\<close>, and the client receives status 500. The body is not
  the bare \<open>{"detail": str(e)}\<close>: the application registers \<open>http_exception_handler\<close>
  for \<open>HTTPException\<close>, so the body is the structured envelope, with error
  INTERNAL_SERVER_ERROR, \<open>str(e)\<close> as its message and no detail entries, the same in
  every configuration of the environment. An exception that is not an instance of
  \<open>Exception\<close> is not caught: the endpoint raises it unchanged, no handler takes it and
  the client receives no response from the application.
\<close>

theorem endpoint_exception_envelope:
  assumes "\<not> truthy_bool (stream request)"
    and "chat_completion ai db request = Inl e"
  shows "(is_Exception e \<longrightarrow>
      snd (completions str dumps ai request db)
        = Inl (HTTPExc (HTTPException 500 (str e) None))
      \<and> snd (colposcopy str dumps ai request files db)
        = Inl (HTTPExc (HTTPException 500 (str e) None))
      \<and> respond environment str utcnow http_req (snd (completions str dumps ai request db))
        = Error_response (JSONResponse 500 (ErrorResponse_model_dump
            \<lparr> success = False, error = ''INTERNAL_SERVER_ERROR'', message = str e,
              details = Some [], status_code = 500, timestamp = utcnow @ ''Z'',
              path = Some (url_path http_req), request_id = None \<rparr>))
      \<and> respond environment str utcnow http_req
            (snd (colposcopy str dumps ai request files db))
        = respond environment str utcnow http_req (snd (completions str dumps ai request db))
      \<and> respond environment' str utcnow http_req (snd (completions str dumps ai request db))
        = respond environment str utcnow http_req (snd (completions str dumps ai request db))
      \<and> respond environment str utcnow http_req (snd (completions str dumps ai request db))
        \<noteq> Error_response (JSONResponse 500 (JObj [(''detail'', JStr (str e))])))
    \<and> (\<not> is_Exception e \<longrightarrow>
      snd (completions str dumps ai request db) = Inl e
      \<and> snd (colposcopy str dumps ai request files db) = Inl e
      \<and> respond environment str utcnow http_req (snd (completions str dumps ai request db))
        = Unhandled e
      \<and> respond environment str utcnow http_req
            (snd (colposcopy str dumps ai request files db))
        = Unhandled e)"
proof (intro conjI impI)
  assume caught: "is_Exception e"
  from completions_raises [OF assms caught]
  show "snd (completions str dumps ai request db)
        = Inl (HTTPExc (HTTPException 500 (str e) None))"
    by simp
  then show "snd (colposcopy str dumps ai request files db)
        = Inl (HTTPExc (HTTPException 500 (str e) None))"
    by (simp add: colposcopy_completions)
  from completions_raises [OF assms caught]
  show "respond environment str utcnow http_req (snd (completions str dumps ai request db))
        = Error_response (JSONResponse 500 (ErrorResponse_model_dump
            \<lparr> success = False, error = ''INTERNAL_SERVER_ERROR'', message = str e,
              details = Some [], status_code = 500, timestamp = utcnow @ ''Z'',
              path = Some (url_path http_req), request_id = None \<rparr>))"
    by (simp add: respond_http_500)
  show "respond environment str utcnow http_req
            (snd (colposcopy str dumps ai request files db))
        = respond environment str utcnow http_req (snd (completions str dumps ai request db))"
    by (simp add: colposcopy_completions)
  from completions_raises [OF assms caught]
  show "respond environment' str utcnow http_req (snd (completions str dumps ai request db))
        = respond environment str utcnow http_req (snd (completions str dumps ai request db))"
    by (simp add: respond_http_500)
  from completions_raises [OF assms caught]
  show "respond environment str utcnow http_req (snd (completions str dumps ai request db))
        \<noteq> Error_response (JSONResponse 500 (JObj [(''detail'', JStr (str e))]))"
    by (simp add: respond_http_500 ErrorResponse_model_dump_def)
next
  assume passed: "\<not> is_Exception e"
  from completions_passes [OF assms passed]
  show c: "snd (completions str dumps ai request db) = Inl e"
    by simp
  then show "snd (colposcopy str dumps ai request files db) = Inl e"
    by (simp add: colposcopy_completions)
  from c passed
  show r: "respond environment str utcnow http_req (snd (completions str dumps ai request db))
        = Unhandled e"
    by (simp add: respond_unhandled)
  then show "respond environment str utcnow http_req
            (snd (colposcopy str dumps ai request files db))
        = Unhandled e"
    by (simp add: colposcopy_completions)
qed

theorem endpoint_exception_envelope_witness:
  "\<not> truthy_bool (stream example_request)
   \<and> chat_completion (raising_provider (OtherException ''RuntimeError'' ''boom'')) ()
        example_request = Inl (OtherException ''RuntimeError'' ''boom'')
   \<and> is_Exception (OtherException ''RuntimeError'' ''boom'')
   \<and> respond None example_str ''2025-01-01T00:00:00'' example_http_request
        (snd (completions example_str (\<lambda>d. ''{}'')
                (raising_provider (OtherException ''RuntimeError'' ''boom''))
                example_request ()))
      = Error_response (JSONResponse 500 (ErrorResponse_model_dump
          \<lparr> success = False, error = ''INTERNAL_SERVER_ERROR'', message = ''boom'',
            details = Some [], status_code = 500, timestamp = ''2025-01-01T00:00:00Z'',
            path = Some ''/api/v1/chat/completions'', request_id = None \<rparr>))
   \<and> chat_completion (raising_provider (NonException ''CancelledError'' [])) ()
        example_request = Inl (NonException ''CancelledError'' [])
   \<and> \<not> is_Exception (NonException ''CancelledError'' [])
   \<and> snd (completions example_str (\<lambda>d. ''{}'')
             (raising_provider (NonException ''CancelledError'' [])) example_request ())
      = Inl (NonException ''CancelledError'' [])
   \<and> respond None example_str ''2025-01-01T00:00:00'' example_http_request
        (snd (completions example_str (\<lambda>d. ''{}'')
                (raising_provider (NonException ''CancelledError'' [])) example_request ()))
      = Unhandled (NonException ''CancelledError'' [])"
proof -
  have h1: "\<not> truthy_bool (stream example_request)"
    by (simp add: example_request_def)
  have h2: "chat_completion (raising_provider (OtherException ''RuntimeError'' ''boom'')) ()
        example_request = Inl (OtherException ''RuntimeError'' ''boom'')"
    by (simp add: raising_provider_def)
  have h3: "chat_completion (raising_provider (NonException ''CancelledError'' [])) ()
        example_request = Inl (NonException ''CancelledError'' [])"
    by (simp add: raising_provider_def)
  from endpoint_exception_envelope [OF h1 h2, of example_str "\<lambda>d. ''{}''"
        "[]::unit list" None "''2025-01-01T00:00:00''" example_http_request None]
  have caught: "respond None example_str ''2025-01-01T00:00:00'' example_http_request
        (snd (completions example_str (\<lambda>d. ''{}'')
                (raising_provider (OtherException ''RuntimeError'' ''boom''))
                example_request ()))
      = Error_response (JSONResponse 500 (ErrorResponse_model_dump
          \<lparr> success = False, error = ''INTERNAL_SERVER_ERROR'', message = ''boom'',
            details = Some [], status_code = 500, timestamp = ''2025-01-01T00:00:00Z'',
            path = Some ''/api/v1/chat/completions'', request_id = None \<rparr>))"
    by (simp add: example_http_request_def, elim conjE, simp)
  from endpoint_exception_envelope [OF h1 h3, of example_str "\<lambda>d. ''{}''"
        "[]::unit list" None "''2025-01-01T00:00:00''" example_http_request None]
  have passed: "snd (completions example_str (\<lambda>d. ''{}'')
             (raising_provider (NonException ''CancelledError'' [])) example_request ())
      = Inl (NonException ''CancelledError'' [])
    \<and> respond None example_str ''2025-01-01T00:00:00'' example_http_request
        (snd (completions example_str (\<lambda>d. ''{}'')
                (raising_provider (NonException ''CancelledError'' [])) example_request ()))
      = Unhandled (NonException ''CancelledError'' [])"
    by (simp, elim conjE, simp)
  from h1 h2 h3 caught passed show ?thesis
    by (elim conjE) simp
qed

theorem bare_detail_counterexample:
  "respond None example_str ''2025-01-01T00:00:00'' example_http_request
     (snd (completions example_str (\<lambda>d. ''{}'')
             (raising_provider (OtherException ''RuntimeError'' ''boom''))
             example_request ()))
   = Error_response (JSONResponse 500
       (JObj [(''success'', JBool False),
              (''error'', JStr ''INTERNAL_SERVER_ERROR''),
              (''message'', JStr ''boom''),
              (''details'', JArr []),
              (''status_code'', JInt 500),
              (''timestamp'', JStr ''2025-01-01T00:00:00Z''),
              (''path'', JStr ''/api/v1/chat/completions''),
              (''request_id'', JNull)]))
   \<and> respond None example_str ''2025-01-01T00:00:00'' example_http_request
     (snd (completions example_str (\<lambda>d. ''{}'')
             (raising_provider (OtherException ''RuntimeError'' ''boom''))
             example_request ()))
   \<noteq> Error_response (JSONResponse 500 (JObj [(''detail'', JStr ''boom'')]))"
  by (simp add: completions_def completions_try_def raising_provider_def example_request_def
      respond_def exception_response_def http_exception_handler_def
      create_error_response_def error_type_map_def ErrorResponse_model_dump_def
      example_http_request_def)

text \<open>
  C10 (as amended). When the body of a chat endpoint raises an \<open>HTTPException\<close> before
  streaming begins, a \<open>BusinessException\<close> of any class and status included, the
  \<open>except Exception\<close> clause catches it and raises a new \<open>HTTPException\<close> with status
  500 and detail \<open>str(e)\<close>, which has no error code, no field and no headers. The client
  receives status 500, error INTERNAL_SERVER_ERROR and no detail entries. Its message is
  \<open>str(e)\<close>, which for an \<open>HTTPException\<close> is the original status code, a colon and
  the original detail: the client observes these two in the message, and nothing else of
  the original exception, so that two exceptions with the same status code and detail
  give the same response whatever their class, error code, field and headers.
\<close>

theorem http_exception_reraised_as_500:
  assumes "\<not> truthy_bool (stream request)"
    and "chat_completion ai db request = Inl (HTTPExc h)"
    and "str (HTTPExc h) = http_exception_str h"
  shows "snd (completions str dumps ai request db)
      = Inl (HTTPExc (HTTPException 500
               (str_int (exc_status_code h) @ '': '' @ exc_detail h) None))
    \<and> snd (colposcopy str dumps ai request files db)
      = Inl (HTTPExc (HTTPException 500
               (str_int (exc_status_code h) @ '': '' @ exc_detail h) None))
    \<and> respond environment str utcnow http_req (snd (completions str dumps ai request db))
      = Error_response (JSONResponse 500 (ErrorResponse_model_dump
          \<lparr> success = False, error = ''INTERNAL_SERVER_ERROR'',
            message = str_int (exc_status_code h) @ '': '' @ exc_detail h,
            details = Some [], status_code = 500, timestamp = utcnow @ ''Z'',
            path = Some (url_path http_req), request_id = None \<rparr>))
    \<and> respond environment str utcnow http_req (snd (colposcopy str dumps ai request files db))
      = Error_response (JSONResponse 500 (ErrorResponse_model_dump
          \<lparr> success = False, error = ''INTERNAL_SERVER_ERROR'',
            message = str_int (exc_status_code h) @ '': '' @ exc_detail h,
            details = Some [], status_code = 500, timestamp = utcnow @ ''Z'',
            path = Some (url_path http_req), request_id = None \<rparr>))
    \<and> (chat_completion ai' db request = Inl (HTTPExc h')
         \<and> str (HTTPExc h') = http_exception_str h'
         \<and> exc_status_code h' = exc_status_code h \<and> exc_detail h' = exc_detail h
       \<longrightarrow> respond environment str utcnow http_req
              (snd (completions str dumps ai' request db))
           = respond environment str utcnow http_req
              (snd (completions str dumps ai request db)))"
proof -
  have caught: "is_Exception (HTTPExc h)" "is_Exception (HTTPExc h')"
    by simp_all
  from completions_raises [OF assms(1) assms(2) caught(1), of str dumps] assms(3)
  have c: "completions str dumps ai request db =
     ([Log (patient_log request), Log (Info_stream_request request),
       Call_chat_completion db request],
      Inl (HTTPExc (HTTPException 500
             (str_int (exc_status_code h) @ '': '' @ exc_detail h) None)))"
    by (simp add: http_exception_str_def)
  have other: "respond environment str utcnow http_req
              (snd (completions str dumps ai' request db))
           = respond environment str utcnow http_req
              (snd (completions str dumps ai request db))"
    if "chat_completion ai' db request = Inl (HTTPExc h')"
      and "str (HTTPExc h') = http_exception_str h'"
      and "exc_status_code h' = exc_status_code h" and "exc_detail h' = exc_detail h"
    using completions_raises [OF assms(1) that(1) caught(2), of str dumps] that(2-4) c
    by (simp add: http_exception_str_def)
  from c other show ?thesis
    by (simp add: colposcopy_completions respond_http_500)
qed

theorem http_exception_reraised_as_500_witness:
  "\<not> truthy_bool (stream example_request)
   \<and> chat_completion (raising_provider (HTTPExc (NotFoundException None None))) ()
        example_request = Inl (HTTPExc (NotFoundException None None))
   \<and> example_str (HTTPExc (NotFoundException None None))
      = http_exception_str (NotFoundException None None)
   \<and> snd (completions example_str (\<lambda>d. ''{}'')
             (raising_provider (HTTPExc (NotFoundException None None))) example_request ())
      = Inl (HTTPExc (HTTPException 500 (''404: '' @ default_not_found_detail) None))
   \<and> respond None example_str ''2025-01-01T00:00:00'' example_http_request
        (snd (completions example_str (\<lambda>d. ''{}'')
                (raising_provider (HTTPExc (NotFoundException None None)))
                example_request ()))
      = Error_response (JSONResponse 500 (ErrorResponse_model_dump
          \<lparr> success = False, error = ''INTERNAL_SERVER_ERROR'',
            message = ''404: '' @ default_not_found_detail,
            details = Some [], status_code = 500, timestamp = ''2025-01-01T00:00:00Z'',
            path = Some ''/api/v1/chat/completions'', request_id = None \<rparr>))
   \<and> chat_completion
        (raising_provider (HTTPExc (HTTPException 404 default_not_found_detail None))) ()
        example_request = Inl (HTTPExc (HTTPException 404 default_not_found_detail None))
   \<and> example_str (HTTPExc (HTTPException 404 default_not_found_detail None))
      = http_exception_str (HTTPException 404 default_not_found_detail None)
   \<and> exc_status_code (HTTPException 404 default_not_found_detail None)
      = exc_status_code (NotFoundException None None)
   \<and> exc_detail (HTTPException 404 default_not_found_detail None)
      = exc_detail (NotFoundException None None)
   \<and> HTTPException 404 default_not_found_detail None \<noteq> NotFoundException None None
   \<and> respond None example_str ''2025-01-01T00:00:00'' example_http_request
        (snd (completions example_str (\<lambda>d. ''{}'')
                (raising_provider (HTTPExc (HTTPException 404 default_not_found_detail None)))
                example_request ()))
      = respond None example_str ''2025-01-01T00:00:00'' example_http_request
        (snd (completions example_str (\<lambda>d. ''{}'')
                (raising_provider (HTTPExc (NotFoundException None None)))
                example_request ()))"
proof -
  let ?h = "NotFoundException None None"
  let ?h' = "HTTPException 404 default_not_found_detail None"
  have h1: "\<not> truthy_bool (stream example_request)"
    by (simp add: example_request_def)
  have h2: "chat_completion (raising_provider (HTTPExc ?h)) ()
        example_request = Inl (HTTPExc ?h)"
    by (simp add: raising_provider_def)
  have h3: "example_str (HTTPExc ?h) = http_exception_str ?h"
    by simp
  have g2: "chat_completion (raising_provider (HTTPExc ?h')) ()
        example_request = Inl (HTTPExc ?h')"
    by (simp add: raising_provider_def)
  have g3: "example_str (HTTPExc ?h') = http_exception_str ?h'"
    by simp
  have g4: "exc_status_code ?h' = exc_status_code ?h"
    by (simp add: NotFoundException_def)
  have g5: "exc_detail ?h' = exc_detail ?h"
    by (simp add: NotFoundException_def)
  have g6: "?h' \<noteq> ?h"
    by (simp add: NotFoundException_def)
  have n: "str_int 404 = ''404''"
    by (simp add: str_int_def str_nat.simps)
  note t = http_exception_reraised_as_500 [where str = example_str
        and h = "NotFoundException None None"
        and ai = "raising_provider (HTTPExc (NotFoundException None None))"
        and db = "()" and request = example_request and dumps = "\<lambda>d. ''{}''"
        and files = "[]::unit list" and environment = None
        and utcnow = "''2025-01-01T00:00:00''" and http_req = example_http_request
        and ai' = "raising_provider (HTTPExc (HTTPException 404 default_not_found_detail None))"
        and h' = "HTTPException 404 default_not_found_detail None", OF h1 h2 h3]
  from t have a: "snd (completions example_str (\<lambda>d. ''{}'')
             (raising_provider (HTTPExc ?h)) example_request ())
      = Inl (HTTPExc (HTTPException 500 (''404: '' @ default_not_found_detail) None))
    \<and> respond None example_str ''2025-01-01T00:00:00'' example_http_request
        (snd (completions example_str (\<lambda>d. ''{}'')
                (raising_provider (HTTPExc ?h))
                example_request ()))
      = Error_response (JSONResponse 500 (ErrorResponse_model_dump
          \<lparr> success = False, error = ''INTERNAL_SERVER_ERROR'',
            message = ''404: '' @ default_not_found_detail,
            details = Some [], status_code = 500, timestamp = ''2025-01-01T00:00:00Z'',
            path = Some ''/api/v1/chat/completions'', request_id = None \<rparr>))"
    using n
    by (simp add: example_http_request_def NotFoundException_def, elim conjE, simp)
  from t have "chat_completion (raising_provider (HTTPExc ?h')) () example_request
          = Inl (HTTPExc ?h')
         \<and> example_str (HTTPExc ?h') = http_exception_str ?h'
         \<and> exc_status_code ?h' = exc_status_code ?h \<and> exc_detail ?h' = exc_detail ?h
       \<longrightarrow> respond None example_str ''2025-01-01T00:00:00'' example_http_request
              (snd (completions example_str (\<lambda>d. ''{}'')
                (raising_provider (HTTPExc ?h')) example_request ()))
           = respond None example_str ''2025-01-01T00:00:00'' example_http_request
              (snd (completions example_str (\<lambda>d. ''{}'')
                (raising_provider (HTTPExc ?h)) example_request ()))"
    by (elim conjE)
  moreover from g2 g3 g4 g5
  have "chat_completion (raising_provider (HTTPExc ?h')) () example_request
          = Inl (HTTPExc ?h')
         \<and> example_str (HTTPExc ?h') = http_exception_str ?h'
         \<and> exc_status_code ?h' = exc_status_code ?h \<and> exc_detail ?h' = exc_detail ?h"
    by (intro conjI)
  ultimately have b: "respond None example_str ''2025-01-01T00:00:00'' example_http_request
              (snd (completions example_str (\<lambda>d. ''{}'')
                (raising_provider (HTTPExc ?h')) example_request ()))
           = respond None example_str ''2025-01-01T00:00:00'' example_http_request
              (snd (completions example_str (\<lambda>d. ''{}'')
                (raising_provider (HTTPExc ?h)) example_request ()))"
    by (rule mp)
  from a have a1: "snd (completions example_str (\<lambda>d. ''{}'')
             (raising_provider (HTTPExc ?h)) example_request ())
      = Inl (HTTPExc (HTTPException 500 (''404: '' @ default_not_found_detail) None))"
    by (rule conjunct1)
  from a have a2: "respond None example_str ''2025-01-01T00:00:00'' example_http_request
        (snd (completions example_str (\<lambda>d. ''{}'')
                (raising_provider (HTTPExc ?h))
                example_request ()))
      = Error_response (JSONResponse 500 (ErrorResponse_model_dump
          \<lparr> success = False, error = ''INTERNAL_SERVER_ERROR'',
            message = ''404: '' @ default_not_found_detail,
            details = Some [], status_code = 500, timestamp = ''2025-01-01T00:00:00Z'',
            path = Some ''/api/v1/chat/completions'', request_id = None \<rparr>))"
    by (rule conjunct2)
  from h1 h2 h3 a1 a2 g2 g3 g4 g5 g6 b show ?thesis
    by (intro conjI)
qed

theorem status_in_message_counterexample:
  "exc_status_code (NotFoundException (Some ''gone'') None) = 404
   \<and> respond None example_str ''2025-01-01T00:00:00'' example_http_request
        (snd (completions example_str (\<lambda>d. ''{}'')
                (raising_provider (HTTPExc (NotFoundException (Some ''gone'') None)))
                example_request ()))
      = Error_response (JSONResponse 500
          (JObj [(''success'', JBool False),
                 (''error'', JStr ''INTERNAL_SERVER_ERROR''),
                 (''message'', JStr ''404: gone''),
                 (''details'', JArr []),
                 (''status_code'', JInt 500),
                 (''timestamp'', JStr ''2025-01-01T00:00:00Z''),
                 (''path'', JStr ''/api/v1/chat/completions''),
                 (''request_id'', JNull)]))
   \<and> respond None example_str ''2025-01-01T00:00:00'' example_http_request
        (snd (completions example_str (\<lambda>d. ''{}'')
                (raising_provider (HTTPExc (AuthenticationException (Some ''gone'') None)))
                example_request ()))
      = Error_response (JSONResponse 500
          (JObj [(''success'', JBool False),
                 (''error'', JStr ''INTERNAL_SERVER_ERROR''),
                 (''message'', JStr ''401: gone''),
                 (''details'', JArr []),
                 (''status_code'', JInt 500),
                 (''timestamp'', JStr ''2025-01-01T00:00:00Z''),
                 (''path'', JStr ''/api/v1/chat/completions''),
                 (''request_id'', JNull)]))
   \<and> respond None example_str ''2025-01-01T00:00:00'' example_http_request
        (snd (completions example_str (\<lambda>d. ''{}'')
                (raising_provider (HTTPExc (NotFoundException (Some ''gone'') None)))
                example_request ()))
      \<noteq> respond None example_str ''2025-01-01T00:00:00'' example_http_request
        (snd (completions example_str (\<lambda>d. ''{}'')
                (raising_provider (HTTPExc (AuthenticationException (Some ''gone'') None)))
                example_request ()))"
proof -
  have n: "str_int 404 = ''404''" "str_int 401 = ''401''"
    by (simp_all add: str_int_def str_nat.simps)
  show ?thesis
    using n
    by (simp add: completions_def completions_try_def raising_provider_def
        example_request_def respond_def exception_response_def http_exception_handler_def
        create_error_response_def error_type_map_def ErrorResponse_model_dump_def
        example_http_request_def NotFoundException_def AuthenticationException_def
        http_exception_str_def)
qed


section \<open>Properties of the error envelope\<close>

text \<open>
  C5 (as amended). For a \<open>BusinessException\<close> constructed with error_code "NOT_FOUND" and
  field "patient_id", the envelope of the HTTP-exception handler has error "NOT_FOUND" and
  exactly one detail entry, whose field is "patient_id"; its status code, and the status of
  the response, is the status code the exception was constructed with, which is 400 when
  none is given and 404 only when 404 is given.
\<close>

theorem business_not_found_envelope:
  "http_exception_envelope utcnow request
     (BusinessException sc d (Some ''NOT_FOUND'') (Some ''patient_id'') h)
   = \<lparr> success = False, error = ''NOT_FOUND'',
       message = or_default d default_business_detail,
       details = Some [\<lparr> detail_type = ''business_error'',
                         detail_message = or_default d default_business_detail,
                         detail_field = Some ''patient_id'',
                         detail_code = Some ''NOT_FOUND'' \<rparr>],
       status_code = or_default sc 400, timestamp = utcnow @ ''Z'',
       path = Some (url_path request), request_id = None \<rparr>
   \<and> snd (http_exception_handler utcnow request
        (BusinessException sc d (Some ''NOT_FOUND'') (Some ''patient_id'') h))
     = JSONResponse (or_default sc 400) (ErrorResponse_model_dump
         (http_exception_envelope utcnow request
            (BusinessException sc d (Some ''NOT_FOUND'') (Some ''patient_id'') h)))
   \<and> status_code (http_exception_envelope utcnow request
        (BusinessException (Some 404) d (Some ''NOT_FOUND'') (Some ''patient_id'') h)) = 404"
  by (simp add: BusinessException_def create_error_response_def http_exception_handler_def)

theorem business_status_counterexample:
  "status_code (http_exception_envelope ''2025-01-01T00:00:00'' example_http_request
     (BusinessException None None (Some ''NOT_FOUND'') (Some ''patient_id'') None)) = 400
   \<and> status_code (http_exception_envelope ''2025-01-01T00:00:00'' example_http_request
     (BusinessException None None (Some ''NOT_FOUND'') (Some ''patient_id'') None)) \<noteq> 404
   \<and> snd (http_exception_handler ''2025-01-01T00:00:00'' example_http_request
     (BusinessException None None (Some ''NOT_FOUND'') (Some ''patient_id'') None))
     = JSONResponse 400
         (JObj [(''success'', JBool False),
                (''error'', JStr ''NOT_FOUND''),
                (''message'', JStr default_business_detail),
                (''details'', JArr [JObj [(''type'', JStr ''business_error''),
                                          (''message'', JStr default_business_detail),
                                          (''field'', JStr ''patient_id''),
                                          (''code'', JStr ''NOT_FOUND'')]]),
                (''status_code'', JInt 400),
                (''timestamp'', JStr ''2025-01-01T00:00:00Z''),
                (''path'', JStr ''/api/v1/chat/completions''),
                (''request_id'', JNull)])"
  by (simp add: BusinessException_def create_error_response_def http_exception_handler_def
      ErrorResponse_model_dump_def ErrorDetail_model_dump_def example_http_request_def)

text \<open>
  C6. For every exception given to the catch-all handler the response has status 500 and
  error INTERNAL_SERVER_ERROR. In a development configuration (ENVIRONMENT not set, or set
  to "development") the message is the type name of the exception, a colon and its string
  form, and there is one detail entry of type system_error; in any other configuration the
  message is the fixed text and there are no detail entries. Nothing else depends on the
  configuration: the log records are the same, and the envelopes of two configurations are
  equal once message and details are set aside.
\<close>

theorem catch_all_envelope:
  "general_envelope environment str utcnow request exc
   = \<lparr> success = False, error = ''INTERNAL_SERVER_ERROR'',
       message = (if is_development environment then type_name exc @ '': '' @ str exc
                  else generic_message),
       details = Some (if is_development environment
                       then [\<lparr> detail_type = ''system_error'', detail_message = str exc,
                                detail_field = None, detail_code = Some (type_name exc) \<rparr>]
                       else []),
       status_code = 500, timestamp = utcnow @ ''Z'',
       path = Some (url_path request), request_id = None \<rparr>
   \<and> general_exception_handler environment str utcnow request exc
     = ([Error_unhandled (type_name exc) (str exc), Error_traceback],
        JSONResponse 500 (ErrorResponse_model_dump
          (general_envelope environment str utcnow request exc)))
   \<and> is_development environment
     = (environment = None \<or> environment = Some ''development'')
   \<and> fst (general_exception_handler environment str utcnow request exc)
     = fst (general_exception_handler environment' str utcnow request exc)
   \<and> (general_envelope environment str utcnow request exc)\<lparr> message := m, details := ds \<rparr>
     = (general_envelope environment' str utcnow request exc)\<lparr> message := m, details := ds \<rparr>"
proof -
  have dev: "is_development environment
      = (environment = None \<or> environment = Some ''development'')"
    by (cases environment) (simp_all add: is_development_def)
  show ?thesis
    using dev
    by (simp add: general_envelope_def general_exception_handler_def
        create_error_response_def)
qed

theorem catch_all_envelope_witness:
  "is_development None \<and> \<not> is_development (Some ''production'')
   \<and> message (general_envelope None example_str ''2025-01-01T00:00:00'' example_http_request
        (OtherException ''RuntimeError'' ''boom'')) = ''RuntimeError: boom''
   \<and> details (general_envelope None example_str ''2025-01-01T00:00:00'' example_http_request
        (OtherException ''RuntimeError'' ''boom''))
     = Some [\<lparr> detail_type = ''system_error'', detail_message = ''boom'',
               detail_field = None, detail_code = Some ''RuntimeError'' \<rparr>]
   \<and> message (general_envelope (Some ''production'') example_str ''2025-01-01T00:00:00''
        example_http_request (OtherException ''RuntimeError'' ''boom'')) = generic_message
   \<and> details (general_envelope (Some ''production'') example_str ''2025-01-01T00:00:00''
        example_http_request (OtherException ''RuntimeError'' ''boom'')) = Some []"
  using catch_all_envelope [of None example_str "''2025-01-01T00:00:00''" example_http_request
      "OtherException ''RuntimeError'' ''boom''" "Some ''production''"]
    catch_all_envelope [of "Some ''production''" example_str "''2025-01-01T00:00:00''"
      example_http_request "OtherException ''RuntimeError'' ''boom''" None]
  by simp

section \<open>Properties of request validation\<close>

lemma collect_map_Inr_id: "collect (map Inr xs) = Inr xs"
  by (induction xs) simp_all

lemma collect_Inr_D: "collect rs = Inr xs \<Longrightarrow> rs = map Inr xs"
proof (induction rs arbitrary: xs)
  case Nil
  then show ?case by simp
next
  case (Cons r rs)
  show ?case
  proof (cases r)
    case (Inl e)
    with Cons.prems show ?thesis by (simp split: sum.splits)
  next
    case (Inr x)
    with Cons.prems obtain ys where ys: "collect rs = Inr ys" and xs: "xs = x # ys"
      by (auto split: sum.splits)
    from Cons.IH [OF ys] Inr xs show ?thesis by simp
  qed
qed

lemma collect_Inr_iff: "collect rs = Inr xs \<longleftrightarrow> rs = map Inr xs"
  using collect_Inr_D collect_map_Inr_id by blast

lemma collect_map_Inr:
  "collect (map f xs) = Inr ys \<Longrightarrow> list_all2 (\<lambda>x y. f x = Inr y) xs ys"
  by (simp add: collect_Inr_iff list_all2_conv_all_nth list_eq_iff_nth_eq)

lemma collect_all_Inr:
  "\<forall>x\<in>set xs. \<exists>y. f x = Inr y \<Longrightarrow> \<exists>ys. collect (map f xs) = Inr ys"
proof (induction xs)
  case Nil
  show ?case by simp
next
  case (Cons x xs)
  then obtain y ys where "f x = Inr y" "collect (map f xs) = Inr ys" by auto
  then show ?case by simp
qed

lemma collect_one_Inl:
  "distinct (map g xs) \<Longrightarrow> x0 \<in> set xs \<Longrightarrow> f x0 = Inl e \<Longrightarrow>
   \<forall>x\<in>set xs. g x \<noteq> g x0 \<longrightarrow> (\<exists>y. f x = Inr y) \<Longrightarrow>
   collect (map f xs) = Inl e"
proof (induction xs)
  case Nil
  then show ?case by simp
next
  case (Cons x xs)
  show ?case
  proof (cases "x = x0")
    case True
    from Cons.prems(1) True have "\<forall>x'\<in>set xs. g x' \<noteq> g x0"
      by (metis distinct.simps(2) image_eqI list.simps(9) set_map)
    with Cons.prems(4) have "\<forall>x\<in>set xs. \<exists>y. f x = Inr y" by simp
    then obtain ys where "collect (map f xs) = Inr ys" using collect_all_Inr by blast
    with True Cons.prems show ?thesis by simp
  next
    case False
    with Cons.prems have in_xs: "x0 \<in> set xs" by simp
    with Cons.prems have "g x \<noteq> g x0" by force
    with Cons.prems obtain y where "f x = Inr y" by auto
    moreover have "collect (map f xs) = Inl e"
      using Cons.IH Cons.prems in_xs by simp
    ultimately show ?thesis by simp
  qed
qed

lemma at_loc_Inr [simp]: "at_loc s r = Inr v \<longleftrightarrow> r = Inr v"
  by (cases r) (simp_all add: at_loc_def)

lemma at_loc_simps [simp]:
  "at_loc s (Inr v) = Inr v"
  "at_loc s (Inl errs) = Inl (map (\<lambda>(l, k). (s # l, k)) errs)"
  by (simp_all add: at_loc_def)

lemma validate_TModel:
  "validate conv (TModel nm fs) (JObj kvs) =
     (case collect (map (validate_field conv kvs) fs) of
        Inl errs \<Rightarrow> Inl errs
      | Inr out \<Rightarrow> Inr (JObj out))"
proof -
  have "validate_field conv kvs =
      (\<lambda>(name, t, dflt).
          case map_of kvs name of
            None \<Rightarrow> (case dflt of None \<Rightarrow> Inl [([LStr name], Missing)]
                               | Some d \<Rightarrow> Inr (name, d))
          | Some v \<Rightarrow> (case at_loc (LStr name) (validate conv t v) of
                         Inl errs \<Rightarrow> Inl errs
                       | Inr v' \<Rightarrow> Inr (name, v')))"
    by (rule ext) (simp add: validate_field_def)
  then show ?thesis by simp
qed

lemma validate_field_Inr:
  "validate_field conv kvs (name, t, dflt) = Inr p \<longleftrightarrow>
     (map_of kvs name = None \<and> (\<exists>d. dflt = Some d \<and> p = (name, d)))
     \<or> (\<exists>v v'. map_of kvs name = Some v \<and> validate conv t v = Inr v' \<and> p = (name, v'))"
  by (auto simp add: validate_field_def split: option.splits sum.splits)

lemma validate_field_fst:
  "validate_field conv kvs f = Inr p \<Longrightarrow> fst p = fst f"
  by (cases f) (auto simp add: validate_field_Inr)

lemma model_accepted:
  assumes "validate conv (TModel nm fs) j = Inr v"
  obtains kvs out where "j = JObj kvs" and "v = JObj out"
    and "list_all2 (\<lambda>f p. validate_field conv kvs f = Inr p) fs out"
    and "map fst out = map fst fs"
proof -
  from assms obtain kvs where j: "j = JObj kvs"
    by (cases j) simp_all
  with assms obtain out where c: "collect (map (validate_field conv kvs) fs) = Inr out"
    and v: "v = JObj out"
    by (auto simp add: validate_TModel simp del: validate.simps split: sum.splits)
  from c have l: "list_all2 (\<lambda>f p. validate_field conv kvs f = Inr p) fs out"
    by (rule collect_map_Inr)
  then have "list_all2 (\<lambda>f p. fst p = fst f) fs out"
    by (rule list_all2_mono) (rule validate_field_fst)
  then have "map fst out = map fst fs"
    by (simp add: list_all2_conv_all_nth list_eq_iff_nth_eq)
  with j v l show ?thesis by (rule that)
qed

lemma list_all2_in_left:
  "list_all2 P xs ys \<Longrightarrow> x \<in> set xs \<Longrightarrow> \<exists>y\<in>set ys. P x y"
  by (metis in_set_conv_nth list_all2_conv_all_nth)

lemma validate_field_other_key:
  "fst f \<noteq> k \<Longrightarrow> validate_field conv ((k, x) # kvs) f = validate_field conv kvs f"
  by (cases f) (simp add: validate_field_def)

lemma ChatCompletionRequest_fields_distinct:
  "distinct (map fst ChatCompletionRequest_fields)"
  by (simp add: ChatCompletionRequest_fields_def)

lemma missing_messages_errors:
  assumes absent: "map_of kvs ''messages'' = None"
    and accepted: "validate conv ChatCompletionRequest_type (JObj ((''messages'', ms) # kvs)) = Inr r"
  shows "validate conv ChatCompletionRequest_type (JObj kvs) = Inl [([LStr ''messages''], Missing)]"
proof -
  let ?x0 = "(''messages'', TList (TModel ''ChatMessage'' ChatMessage_fields), None :: json option)"
  from accepted obtain out where
    l: "list_all2 (\<lambda>f p. validate_field conv ((''messages'', ms) # kvs) f = Inr p)
          ChatCompletionRequest_fields out"
    unfolding ChatCompletionRequest_type_def by (rule model_accepted) simp
  have others: "\<forall>f\<in>set ChatCompletionRequest_fields.
      fst f \<noteq> fst ?x0 \<longrightarrow> (\<exists>y. validate_field conv kvs f = Inr y)"
  proof (intro ballI impI)
    fix f assume f: "f \<in> set ChatCompletionRequest_fields" and ne: "fst f \<noteq> fst ?x0"
    from list_all2_in_left [OF l f]
    obtain p where "validate_field conv ((''messages'', ms) # kvs) f = Inr p"
      by blast
    with ne show "\<exists>y. validate_field conv kvs f = Inr y"
      by (simp add: validate_field_other_key)
  qed
  have x0: "?x0 \<in> set ChatCompletionRequest_fields"
    by (simp add: ChatCompletionRequest_fields_def)
  have fx0: "validate_field conv kvs ?x0 = Inl [([LStr ''messages''], Missing)]"
    using absent by (simp add: validate_field_def)
  have "collect (map (validate_field conv kvs) ChatCompletionRequest_fields)
      = Inl [([LStr ''messages''], Missing)]"
    using ChatCompletionRequest_fields_distinct x0 fx0 others
    by (rule collect_one_Inl [where g = fst and f = "validate_field conv kvs"])
  then show ?thesis
    by (simp add: ChatCompletionRequest_type_def validate_TModel del: validate.simps)
qed

lemma field_name_spec:
  "field_name err =
     (if length (loc err) > 1 then Some (spec_field_path (loc err)) else None)"
  by (cases "loc err") (simp_all add: field_name_def spec_field_path_def)

lemma validation_details_length: "length (validation_details errs) = length errs"
  by (induction errs) simp_all

lemma validation_details_nth:
  "i < length errs \<Longrightarrow>
   validation_details errs ! i =
     \<lparr> detail_type = ''validation_error'', detail_message = msg (errs ! i),
       detail_field = field_name (errs ! i), detail_code = Some (err_type (errs ! i)) \<rparr>"
proof (induction errs arbitrary: i)
  case Nil
  then show ?case by simp
next
  case (Cons e es)
  then show ?case by (cases i) simp_all
qed

text \<open>
  C4 (as amended). For every list of validation errors the validation-exception handler
  returns status 422 with error VALIDATION_ERROR and one detail entry for each error, in
  order, with the message and the type of the error. The field of an entry is the location
  of the error without its leading segment, its segments joined with dots, when the
  location has more than one segment; it is absent (\<open>None\<close>) when the location has one
  segment or none. A body that lacks the required field "messages" and has no other fault
  gives exactly one entry, whose field is "messages".
\<close>

theorem validation_envelope_details:
  "snd (validation_exception_handler utcnow request errs)
     = JSONResponse 422 (ErrorResponse_model_dump (validation_envelope utcnow request errs))
   \<and> status_code (validation_envelope utcnow request errs) = 422
   \<and> error (validation_envelope utcnow request errs) = ''VALIDATION_ERROR''
   \<and> details (validation_envelope utcnow request errs) = Some (validation_details errs)
   \<and> length (validation_details errs) = length errs
   \<and> (\<forall>i<length errs.
        detail_type (validation_details errs ! i) = ''validation_error''
        \<and> detail_message (validation_details errs ! i) = msg (errs ! i)
        \<and> detail_code (validation_details errs ! i) = Some (err_type (errs ! i))
        \<and> detail_field (validation_details errs ! i) =
            (if length (loc (errs ! i)) > 1 then Some (spec_field_path (loc (errs ! i)))
             else None))
   \<and> (map_of kvs ''messages'' = None
        \<and> validate conv ChatCompletionRequest_type (JObj ((''messages'', ms) # kvs)) = Inr r
      \<longrightarrow> map detail_field
            (validation_details (request_validation_errors describe conv (JObj kvs)))
          = [Some ''messages''])"
proof -
  have handler: "snd (validation_exception_handler utcnow request errs)
     = JSONResponse 422 (ErrorResponse_model_dump (validation_envelope utcnow request errs))"
    by (simp add: validation_exception_handler_def)
  have envelope: "status_code (validation_envelope utcnow request errs) = 422
     \<and> error (validation_envelope utcnow request errs) = ''VALIDATION_ERROR''
     \<and> details (validation_envelope utcnow request errs) = Some (validation_details errs)"
    by (simp add: validation_envelope_def create_error_response_def)
  have entries: "\<forall>i<length errs.
        detail_type (validation_details errs ! i) = ''validation_error''
        \<and> detail_message (validation_details errs ! i) = msg (errs ! i)
        \<and> detail_code (validation_details errs ! i) = Some (err_type (errs ! i))
        \<and> detail_field (validation_details errs ! i) =
            (if length (loc (errs ! i)) > 1 then Some (spec_field_path (loc (errs ! i)))
             else None)"
    by (simp add: validation_details_nth field_name_spec)
  have missing: "map detail_field
            (validation_details (request_validation_errors describe conv (JObj kvs)))
          = [Some ''messages'']"
    if "map_of kvs ''messages'' = None"
      and "validate conv ChatCompletionRequest_type (JObj ((''messages'', ms) # kvs)) = Inr r"
    using missing_messages_errors [OF that]
    by (simp add: request_validation_errors_def field_name_def del: validate.simps)
  from handler envelope entries missing show ?thesis
    by (simp add: validation_details_length)
qed

theorem validation_envelope_details_witness:
  "map_of body_without_messages ''messages'' = None
   \<and> (\<exists>r. validate digits_conversion ChatCompletionRequest_type
          (JObj ((''messages'', JArr []) # body_without_messages)) = Inr r)
   \<and> map detail_field
        (validation_details
           (request_validation_errors example_describe digits_conversion
              (JObj body_without_messages)))
      = [Some ''messages'']
   \<and> (0::nat) < length [\<lparr> loc = [LStr ''body'', LStr ''messages'', LInt 0, LStr ''role''],
                            msg = ''Input is not valid'', err_type = ''invalid'' \<rparr>]
   \<and> detail_field (validation_details
        [\<lparr> loc = [LStr ''body'', LStr ''messages'', LInt 0, LStr ''role''],
            msg = ''Input is not valid'', err_type = ''invalid'' \<rparr>] ! 0)
      = Some ''messages.0.role''"
proof -
  have h1: "map_of body_without_messages ''messages'' = None"
    by (simp add: body_without_messages_def)
  have h2: "validate digits_conversion ChatCompletionRequest_type
          (JObj ((''messages'', JArr []) # body_without_messages)) = Inr
     (JObj
       [(''model'', JStr ''gpt-4''), (''messages'', JArr []),
        (''max_tokens'', JInt 1000), (''temperature'', JFloat 0.7),
        (''top_p'', JFloat 1), (''n'', JInt 1), (''stream'', JBool False),
        (''stop'', JNull), (''presence_penalty'', JFloat 0),
        (''frequency_penalty'', JFloat 0), (''logit_bias'', JNull),
        (''user'', JNull), (''tools'', JNull), (''tool_choice'', JNull),
        (''agent_config'', JNull), (''memory_config'', JNull),
        (''mcp_config'', JNull), (''context_id'', JNull),
        (''session_id'', JNull), (''patient_id'', JNull),
        (''include_patient_context'', JBool False), (''metadata'', JNull)])"
    by (simp add: ChatCompletionRequest_type_def ChatCompletionRequest_fields_def
        body_without_messages_def)
  have s: "spec_field_path [LStr ''body'', LStr ''messages'', LInt 0, LStr ''role'']
      = ''messages.0.role''"
    by (simp add: spec_field_path_def str_int_def str_nat.simps)
  from validation_envelope_details [of "''2025-01-01T00:00:00''" example_http_request
      "[\<lparr> loc = [LStr ''body'', LStr ''messages'', LInt 0, LStr ''role''],
          msg = ''Input is not valid'', err_type = ''invalid'' \<rparr>]"
      body_without_messages digits_conversion "JArr []" _ example_describe]
    h1 h2 s
  show ?thesis
    by (simp del: validate.simps)
qed

theorem single_segment_field_counterexample:
  "request_validation_errors example_describe digits_conversion (JArr [])
   = [\<lparr> loc = [LStr ''body''],
        msg = ''Input should be a valid dictionary or object to extract fields from'',
        err_type = ''model_attributes_type'' \<rparr>]
   \<and> map detail_field
       (validation_details (request_validation_errors example_describe digits_conversion
          (JArr [])))
     = [None]
   \<and> spec_field_path [LStr ''body''] = []
   \<and> map detail_field
       (validation_details (request_validation_errors example_describe digits_conversion
          (JArr [])))
     \<noteq> [Some (spec_field_path [LStr ''body''])]"
  by (simp add: request_validation_errors_def ChatCompletionRequest_type_def field_name_def
      spec_field_path_def)

text \<open>
  C7 (as amended). Every \<open>ChatMessage\<close> that validation accepts has a role among
  system, user, assistant, function and tool. The content may be absent whether or not a
  function call or tool calls are present: no validator ties them, and a message that has
  a role of the enumeration and nothing else is accepted, its other fields \<open>None\<close>.
\<close>

theorem chat_message_role_enumerated:
  "(validate conv ChatMessage_type j = Inr m \<longrightarrow>
      (\<exists>kvs r. m = JObj kvs \<and> map_of kvs ''role'' = Some (JStr r)
         \<and> r \<in> set [''system'', ''user'', ''assistant'', ''function'', ''tool'']))
   \<and> (r \<in> set [''system'', ''user'', ''assistant'', ''function'', ''tool''] \<longrightarrow>
        validate conv ChatMessage_type (JObj [(''role'', JStr r)])
          = Inr (JObj [(''role'', JStr r), (''content'', JNull), (''name'', JNull),
                       (''function_call'', JNull), (''tool_calls'', JNull),
                       (''tool_call_id'', JNull)]))"
proof (intro conjI impI)
  assume "validate conv ChatMessage_type j = Inr m"
  then obtain kvs out where m: "m = JObj out"
    and l: "list_all2 (\<lambda>f p. validate_field conv kvs f = Inr p) ChatMessage_fields out"
    unfolding ChatMessage_type_def by (rule model_accepted)
  from l obtain p rest where out: "out = p # rest"
    and p: "validate_field conv kvs
      (''role'', TLiteral [''system'', ''user'', ''assistant'', ''function'', ''tool''], None)
      = Inr p"
    by (auto simp add: ChatMessage_fields_def list_all2_Cons1)
  from p obtain v v' where p': "p = (''role'', v')"
    and v: "validate conv (TLiteral [''system'', ''user'', ''assistant'', ''function'', ''tool'']) v
      = Inr v'"
    by (auto simp add: validate_field_Inr)
  from v obtain s where "v' = JStr s"
    and "s \<in> set [''system'', ''user'', ''assistant'', ''function'', ''tool'']"
    by (cases v) (auto split: if_splits)
  with m out p' show "\<exists>kvs r. m = JObj kvs \<and> map_of kvs ''role'' = Some (JStr r)
      \<and> r \<in> set [''system'', ''user'', ''assistant'', ''function'', ''tool'']"
    by auto
next
  assume "r \<in> set [''system'', ''user'', ''assistant'', ''function'', ''tool'']"
  then show "validate conv ChatMessage_type (JObj [(''role'', JStr r)])
          = Inr (JObj [(''role'', JStr r), (''content'', JNull), (''name'', JNull),
                       (''function_call'', JNull), (''tool_calls'', JNull),
                       (''tool_call_id'', JNull)])"
    by (simp add: ChatMessage_type_def ChatMessage_fields_def)
qed

theorem chat_message_role_enumerated_witness:
  "validate digits_conversion ChatMessage_type
     (JObj [(''role'', JStr ''assistant''), (''content'', JStr ''hello'')])
   = Inr (JObj [(''role'', JStr ''assistant''), (''content'', JStr ''hello''),
                (''name'', JNull), (''function_call'', JNull), (''tool_calls'', JNull),
                (''tool_call_id'', JNull)])
   \<and> ''tool'' \<in> set [''system'', ''user'', ''assistant'', ''function'', ''tool'']
   \<and> validate digits_conversion ChatMessage_type (JObj [(''role'', JStr ''tool'')])
     = Inr (JObj [(''role'', JStr ''tool''), (''content'', JNull), (''name'', JNull),
                  (''function_call'', JNull), (''tool_calls'', JNull),
                  (''tool_call_id'', JNull)])
   \<and> (\<exists>kvs r. map_of kvs ''role'' = Some (JStr r)
          \<and> JObj [(''role'', JStr ''assistant''), (''content'', JStr ''hello''),
                (''name'', JNull), (''function_call'', JNull), (''tool_calls'', JNull),
                (''tool_call_id'', JNull)] = JObj kvs
          \<and> r \<in> set [''system'', ''user'', ''assistant'', ''function'', ''tool''])"
proof -
  have h: "validate digits_conversion ChatMessage_type
     (JObj [(''role'', JStr ''assistant''), (''content'', JStr ''hello'')])
   = Inr (JObj [(''role'', JStr ''assistant''), (''content'', JStr ''hello''),
                (''name'', JNull), (''function_call'', JNull), (''tool_calls'', JNull),
                (''tool_call_id'', JNull)])"
    by (simp add: ChatMessage_type_def ChatMessage_fields_def)
  from chat_message_role_enumerated [of digits_conversion
      "JObj [(''role'', JStr ''assistant''), (''content'', JStr ''hello'')]"
      "JObj [(''role'', JStr ''assistant''), (''content'', JStr ''hello''),
                (''name'', JNull), (''function_call'', JNull), (''tool_calls'', JNull),
                (''tool_call_id'', JNull)]" "''tool''"] h
  show ?thesis
    by (simp del: validate.simps)
qed

theorem content_optional_counterexample:
  "validate digits_conversion ChatMessage_type (JObj [(''role'', JStr ''user'')])
   = Inr (JObj [(''role'', JStr ''user''), (''content'', JNull), (''name'', JNull),
                (''function_call'', JNull), (''tool_calls'', JNull),
                (''tool_call_id'', JNull)])"
  by (simp add: ChatMessage_type_def ChatMessage_fields_def)

section \<open>Round trips of a request\<close>


lemma enumerate_from_snd: "map snd (enumerate_from i xs) = xs"
  by (induction xs arbitrary: i) simp_all



























end
